theory Spec2Isabelle
  imports Complex_Main "HOL-Library.Sublist" "HOL-Library.Word" "HOL-Library.Signed_Division"
begin

section \<open>JavaScript values used by the dispatch engine\<close>

text \<open>
  Numbers that the code treats as millisecond counts or timestamps are modelled as \<open>int\<close>;
  quota fractions and selection scores are modelled as \<open>real\<close> (IEEE rounding, NaN and
  the infinities are idealised away).  A value that may be \<open>null\<close> or \<open>undefined\<close> is an
  \<open>option\<close>.  JavaScript truthiness is written out wherever the source relies on it:
  \<open>0\<close>, the empty string, \<open>null\<close> and \<open>undefined\<close> are falsy.
\<close>

definition truthy_num :: "int option \<Rightarrow> bool" where
  "truthy_num v = (case v of None \<Rightarrow> False | Some n \<Rightarrow> n \<noteq> 0)"

text \<open>\<open>a || d\<close> on an optional number \<open>a\<close> and a default \<open>d\<close>.\<close>

definition js_or :: "int option \<Rightarrow> int \<Rightarrow> int" where
  "js_or v d = (if truthy_num v then the v else d)"

definition truthy_str :: "string option \<Rightarrow> bool" where
  "truthy_str v = (case v of None \<Rightarrow> False | Some s \<Rightarrow> s \<noteq> [])"

text \<open>\<open>String.prototype.includes\<close>: the needle occurs as a contiguous block.\<close>

primrec js_includes :: "string \<Rightarrow> string \<Rightarrow> bool" where
  "js_includes [] sub = (sub = [])"
| "js_includes (c # cs) sub = (prefix sub (c # cs) \<or> js_includes cs sub)"

text \<open>\<open>String.prototype.toLowerCase\<close> on the ASCII letters.\<close>

definition lower_char :: "char \<Rightarrow> char" where
  "lower_char c =
     (case map_of (zip ''ABCDEFGHIJKLMNOPQRSTUVWXYZ'' ''abcdefghijklmnopqrstuvwxyz'') c of
        None \<Rightarrow> c
      | Some l \<Rightarrow> l)"

definition toLowerCase :: "string \<Rightarrow> string" where
  "toLowerCase s = map lower_char s"

text \<open>Decimal rendering of a number inside a template literal.\<close>

fun nat_str :: "nat \<Rightarrow> string" where
  "nat_str n =
     (if n < 10 then [''0123456789'' ! n]
      else nat_str (n div 10) @ [''0123456789'' ! (n mod 10)])"

declare nat_str.simps [simp del]

definition int_str :: "int \<Rightarrow> string" where
  "int_str i = (if i < 0 then CHR ''-'' # nat_str (nat (- i)) else nat_str (nat i))"

section \<open>Accounts\<close>

text \<open>
  An account row as the strategies and the dispatchers read it: \<open>email\<close>, the operator
  toggle, the invalid flag, \<open>lastUsed\<close>, the per-model rate-limit entries and the quota snapshot
  \<open>quota.lastChecked\<close> / \<open>quota.models[modelId].remainingFraction\<close>.  A missing
  \<open>models\<close> object behaves as an empty one in every expression of the source
  (\<open>account?.quota?.models?.[modelId]\<close>).  An entry whose \<open>remainingFraction\<close> is not
  a number has \<open>remainingFraction = None\<close>.
\<close>

record model_quota =
  remainingFraction :: "real option"

record quota_info =
  lastChecked :: "int option"
  models :: "string \<Rightarrow> model_quota option"

record rate_limit =
  isRateLimited :: bool
  resetTime :: int

record account =
  email :: string
  enabled :: bool
  isInvalid :: bool
  lastUsed :: "int option"
  modelRateLimits :: "string \<Rightarrow> rate_limit option"
  quota :: "quota_info option"

section \<open>Quota tracker (trackers/quota-tracker.js)\<close>








section \<open>Trackers and base strategy the hybrid strategy relies on\<close>










section \<open>Hybrid strategy (strategies/hybrid-strategy.js)\<close>












section \<open>Dispatch engine: shared data\<close>

text \<open>
  Modelled from the spec: \<open>constants.js\<close> is not under src/.  The values are the
  spec's tunable constants.
\<close>

definition MAX_RETRIES :: nat where "MAX_RETRIES = 3"
definition MAX_EMPTY_RESPONSE_RETRIES :: nat where "MAX_EMPTY_RESPONSE_RETRIES = 3"
definition MAX_WAIT_BEFORE_ERROR_MS :: int where "MAX_WAIT_BEFORE_ERROR_MS = 120000"
definition DEFAULT_COOLDOWN_MS :: int where "DEFAULT_COOLDOWN_MS = 10000"
definition RATE_LIMIT_DEDUP_WINDOW_MS :: int where "RATE_LIMIT_DEDUP_WINDOW_MS = 2000"
definition MAX_CONSECUTIVE_FAILURES :: int where "MAX_CONSECUTIVE_FAILURES = 3"
definition EXTENDED_COOLDOWN_MS :: int where "EXTENDED_COOLDOWN_MS = 300000"
definition CAPACITY_RETRY_DELAY_MS :: int where "CAPACITY_RETRY_DELAY_MS = 2000"
definition MAX_CAPACITY_RETRIES :: nat where "MAX_CAPACITY_RETRIES = 3"

text \<open>
  A JavaScript \<open>Error\<close>: its message, and the structured fields deeper layers may
  attach (\<open>is429\<close>, \<open>resetMs\<close>, \<open>errorText\<close>); \<open>err_name\<close> is the class name.
  \<open>new Error(msg)\<close> has none of the structured fields.
\<close>

record js_error =
  message :: string
  err_name :: string
  is429 :: bool
  err_resetMs :: "int option"
  errorText :: "string option"

definition new_Error :: "string \<Rightarrow> js_error" where
  "new_Error msg =
     \<lparr> message = msg, err_name = ''Error'', is429 = False, err_resetMs = None,
       errorText = None \<rparr>"

text \<open>An optional string inside a template literal.\<close>

definition template_str :: "string option \<Rightarrow> string" where
  "template_str v = (case v of None \<Rightarrow> ''undefined'' | Some t \<Rightarrow> t)"

text \<open>
  An upstream HTTP response: status, body text and headers; \<open>response.ok\<close> is a status
  in the range 200 to 299.
\<close>

record response =
  status :: nat
  body :: string
  headers :: "(string \<times> string) list"

definition ok :: "response \<Rightarrow> bool" where
  "ok r = (200 \<le> status r \<and> status r \<le> 299)"

text \<open>
  The second argument of \<open>fetch\<close>.  The dispatchers pass \<open>method\<close>, \<open>headers\<close> and
  \<open>body\<close>; \<open>signal\<close> is the abort signal of the Fetch API, \<open>None\<close> when the key is
  absent.
\<close>

record fetch_init =
  http_method :: string
  req_headers :: "(string \<times> string) list"
  req_body :: string
  signal :: "nat option"

text \<open>The Anthropic-format request.  The dispatchers read only \<open>model\<close>.\<close>

datatype content_block =
    TextBlock string
  | ImageBlock
  | DocumentBlock
  | ToolUseBlock string string
  | ToolResultText string
  | ToolResultBlocks "content_block list"
  | ToolResultOther
  | ThinkingBlock string
  | OtherBlock string

datatype message_content = ContentString string | ContentArray "content_block list" | ContentOther

record chat_message =
  role :: string
  content :: message_content

datatype system_prompt = SystemString string | SystemArray "content_block list" | SystemOther

record tool_definition =
  tool_name :: string
  tool_description :: "string option"
  tool_input_schema :: "string option"

record request =
  model :: string
  messages :: "chat_message list option"
  system :: "system_prompt option"
  tools :: "tool_definition list option"
  max_tokens :: "nat option"
  stream_flag :: "bool option"

text \<open>Events of the Anthropic stream, as \<open>emitEmptyResponseFallback\<close> builds them.\<close>

record sse_message =
  msg_id :: string
  msg_type :: string
  msg_role :: string
  msg_content :: "string list"
  msg_model :: string
  msg_stop_reason :: "string option"
  msg_stop_sequence :: "string option"
  usage_input_tokens :: nat
  usage_output_tokens :: nat

datatype sse_event =
    message_start sse_message
  | content_block_start nat string string
  | content_block_delta nat string string
  | content_block_stop nat
  | message_delta "string option" "string option" nat
  | message_stop
  | upstream_event string

text \<open>
  Every call the dispatchers make on the account manager, on \<open>fetch\<close> and on \<open>sleep\<close>
  is recorded, in order, in a trace.
\<close>

datatype event =
    Sleep int
  | Fetch string fetch_init
  | GetAccountCount
  | ClearExpiredLimits
  | GetAvailableAccounts string
  | IsAllRateLimited string
  | GetMinWaitTimeMs string
  | SelectAccount string
  | PickNext string
  | GetTokenForAccount string
  | GetProjectForAccount string
  | MarkInvalid string string
  | ClearTokenCache string
  | ClearProjectCache string
  | MarkRateLimited string "int option" string
  | NotifySuccess string string
  | NotifyRateLimit string string
  | NotifyFailure string string
  | GetConsecutiveFailures string

text \<open>
  The two handler modules each own a module-level map
  \<open>lastRateLimitTimestamps\<close> and the same helper functions over it; the model indexes
  the map and the helpers by the module.
\<close>

datatype handler_module = MessageHandler | StreamingHandler

text \<open>
  The state a dispatch runs in: the outside world \<open>'w\<close> (account manager, network,
  clock), the trace, the module-level maps and the events yielded so far by the
  streaming generator.
\<close>

record 'w dstate =
  world :: 'w
  trace :: "event list"
  lastRateLimitTimestamps :: "handler_module \<Rightarrow> string \<Rightarrow> int option"
  emitted :: "sse_event list"

text \<open>
  The account manager (\<open>account-manager/index.js\<close> is not under src/): each method is
  a parameter.  A method that the source awaits inside \<open>try\<close> may throw.
  \<open>am_getConsecutiveFailures\<close> is \<open>getHealthTracker()?.getConsecutiveFailures(email)\<close>.
\<close>

record 'w account_manager =
  am_getAccountCount :: "'w \<Rightarrow> nat"
  am_clearExpiredLimits :: "'w \<Rightarrow> 'w"
  am_getAvailableAccounts :: "string \<Rightarrow> 'w \<Rightarrow> account list"
  am_isAllRateLimited :: "string \<Rightarrow> 'w \<Rightarrow> bool"
  am_getMinWaitTimeMs :: "string \<Rightarrow> 'w \<Rightarrow> int"
  am_selectAccount :: "string \<Rightarrow> 'w \<Rightarrow> (account option \<times> int) \<times> 'w"
  am_pickNext :: "string \<Rightarrow> 'w \<Rightarrow> account option \<times> 'w"
  am_getTokenForAccount :: "account \<Rightarrow> 'w \<Rightarrow> (js_error + string) \<times> 'w"
  am_getProjectForAccount :: "account \<Rightarrow> string \<Rightarrow> 'w \<Rightarrow> (js_error + string) \<times> 'w"
  am_markInvalid :: "string \<Rightarrow> string \<Rightarrow> 'w \<Rightarrow> 'w"
  am_clearTokenCache :: "string \<Rightarrow> 'w \<Rightarrow> 'w"
  am_clearProjectCache :: "string \<Rightarrow> 'w \<Rightarrow> 'w"
  am_markRateLimited :: "string \<Rightarrow> int option \<Rightarrow> string \<Rightarrow> 'w \<Rightarrow> 'w"
  am_notifySuccess :: "account \<Rightarrow> string \<Rightarrow> 'w \<Rightarrow> 'w"
  am_notifyRateLimit :: "account \<Rightarrow> string \<Rightarrow> 'w \<Rightarrow> 'w"
  am_notifyFailure :: "account \<Rightarrow> string \<Rightarrow> 'w \<Rightarrow> 'w"
  am_getConsecutiveFailures :: "string \<Rightarrow> 'w \<Rightarrow> int option"

text \<open>
  The runtime: \<open>fetch\<close> (which may reject), what the world does during a
  \<open>setTimeout\<close> of \<open>sleep(ms)\<close>, \<open>Date.now()\<close>, and the bytes of
  \<open>crypto.randomBytes\<close>.
\<close>

record 'w runtime =
  rt_fetch :: "string \<Rightarrow> fetch_init \<Rightarrow> 'w \<Rightarrow> (js_error + response) \<times> 'w"
  rt_setTimeout :: "int \<Rightarrow> 'w \<Rightarrow> 'w"
  rt_now :: "'w \<Rightarrow> int"
  rt_randomByte :: "'w \<Rightarrow> nat \<Rightarrow> 8 word"

text \<open>
  The imported modules that are not under src/ (\<open>constants.js\<close>, \<open>errors.js\<close>,
  \<open>fallback-config.js\<close>, \<open>rate-limit-parser.js\<close>, \<open>request-builder.js\<close>,
  \<open>sse-parser.js\<close>, \<open>sse-streamer.js\<close>, \<open>format/index.js\<close>) and the built-ins
  \<open>response.json()\<close> and \<open>Date.prototype.toISOString\<close>: each function is a
  parameter.  \<open>x_requestBody\<close> is \<open>JSON.stringify(buildCloudCodeRequest(request, project))\<close>.
  \<open>x_streamSSEResponse\<close> gives the events the parser yields and the error it ends
  with, if any.
\<close>

record modules =
  ANTIGRAVITY_ENDPOINT_FALLBACKS :: "string list"
  isThinkingModel :: "string \<Rightarrow> bool"
  getFallbackModel :: "string \<Rightarrow> string option"
  isRateLimitError :: "js_error \<Rightarrow> bool"
  isAuthError :: "js_error \<Rightarrow> bool"
  isEmptyResponseError :: "js_error \<Rightarrow> bool"
  parseResetTime :: "response \<Rightarrow> string \<Rightarrow> int option"
  x_requestBody :: "request \<Rightarrow> string \<Rightarrow> string"
  buildHeaders :: "string \<Rightarrow> string \<Rightarrow> string \<Rightarrow> (string \<times> string) list"
  parseThinkingSSEResponse :: "response \<Rightarrow> string \<Rightarrow> js_error + string"
  response_json :: "response \<Rightarrow> js_error + string"
  convertGoogleToAnthropic :: "string \<Rightarrow> string \<Rightarrow> js_error + string"
  x_streamSSEResponse :: "response \<Rightarrow> string \<Rightarrow> sse_event list \<times> js_error option"
  toISOString :: "int \<Rightarrow> string"
  promptTokenCount :: "string \<Rightarrow> nat option"
  encode :: "string \<Rightarrow> nat list option"
  json_stringify :: "string option \<Rightarrow> string"

record 'w env =
  manager :: "'w account_manager"
  runtime :: "'w runtime"
  imported :: modules

subsection \<open>Calls on the outside world\<close>

definition log_event :: "event \<Rightarrow> 'w dstate \<Rightarrow> 'w dstate" where
  "log_event e s = s\<lparr>trace := trace s @ [e]\<rparr>"

definition via :: "('w \<Rightarrow> 'w) \<Rightarrow> event \<Rightarrow> 'w dstate \<Rightarrow> 'w dstate" where
  "via f e s = log_event e (s\<lparr>world := f (world s)\<rparr>)"

definition sleep :: "'w env \<Rightarrow> int \<Rightarrow> 'w dstate \<Rightarrow> 'w dstate" where
  "sleep env ms s = via (rt_setTimeout (runtime env) ms) (Sleep ms) s"

definition fetch ::
  "'w env \<Rightarrow> string \<Rightarrow> fetch_init \<Rightarrow> 'w dstate \<Rightarrow> (js_error + response) \<times> 'w dstate" where
  "fetch env url init s =
     (let (r, w) = rt_fetch (runtime env) url init (world s)
      in (r, log_event (Fetch url init) (s\<lparr>world := w\<rparr>)))"

definition Date_now :: "'w env \<Rightarrow> 'w dstate \<Rightarrow> int" where
  "Date_now env s = rt_now (runtime env) (world s)"

definition getAccountCount :: "'w env \<Rightarrow> 'w dstate \<Rightarrow> nat \<times> 'w dstate" where
  "getAccountCount env s =
     (am_getAccountCount (manager env) (world s), log_event GetAccountCount s)"

definition clearExpiredLimits :: "'w env \<Rightarrow> 'w dstate \<Rightarrow> 'w dstate" where
  "clearExpiredLimits env s = via (am_clearExpiredLimits (manager env)) ClearExpiredLimits s"

definition getAvailableAccounts ::
  "'w env \<Rightarrow> string \<Rightarrow> 'w dstate \<Rightarrow> account list \<times> 'w dstate" where
  "getAvailableAccounts env mdl s =
     (am_getAvailableAccounts (manager env) mdl (world s), log_event (GetAvailableAccounts mdl) s)"

definition isAllRateLimited :: "'w env \<Rightarrow> string \<Rightarrow> 'w dstate \<Rightarrow> bool \<times> 'w dstate" where
  "isAllRateLimited env mdl s =
     (am_isAllRateLimited (manager env) mdl (world s), log_event (IsAllRateLimited mdl) s)"

definition getMinWaitTimeMs :: "'w env \<Rightarrow> string \<Rightarrow> 'w dstate \<Rightarrow> int \<times> 'w dstate" where
  "getMinWaitTimeMs env mdl s =
     (am_getMinWaitTimeMs (manager env) mdl (world s), log_event (GetMinWaitTimeMs mdl) s)"

definition selectAccount_call ::
  "'w env \<Rightarrow> string \<Rightarrow> 'w dstate \<Rightarrow> (account option \<times> int) \<times> 'w dstate" where
  "selectAccount_call env mdl s =
     (let (r, w) = am_selectAccount (manager env) mdl (world s)
      in (r, log_event (SelectAccount mdl) (s\<lparr>world := w\<rparr>)))"

definition getTokenForAccount ::
  "'w env \<Rightarrow> account \<Rightarrow> 'w dstate \<Rightarrow> (js_error + string) \<times> 'w dstate" where
  "getTokenForAccount env a s =
     (let (r, w) = am_getTokenForAccount (manager env) a (world s)
      in (r, log_event (GetTokenForAccount (email a)) (s\<lparr>world := w\<rparr>)))"

definition getProjectForAccount ::
  "'w env \<Rightarrow> account \<Rightarrow> string \<Rightarrow> 'w dstate \<Rightarrow> (js_error + string) \<times> 'w dstate" where
  "getProjectForAccount env a token s =
     (let (r, w) = am_getProjectForAccount (manager env) a token (world s)
      in (r, log_event (GetProjectForAccount (email a)) (s\<lparr>world := w\<rparr>)))"

definition markInvalid :: "'w env \<Rightarrow> string \<Rightarrow> string \<Rightarrow> 'w dstate \<Rightarrow> 'w dstate" where
  "markInvalid env em reason s = via (am_markInvalid (manager env) em reason) (MarkInvalid em reason) s"

definition clearTokenCache :: "'w env \<Rightarrow> string \<Rightarrow> 'w dstate \<Rightarrow> 'w dstate" where
  "clearTokenCache env em s = via (am_clearTokenCache (manager env) em) (ClearTokenCache em) s"

definition clearProjectCache :: "'w env \<Rightarrow> string \<Rightarrow> 'w dstate \<Rightarrow> 'w dstate" where
  "clearProjectCache env em s = via (am_clearProjectCache (manager env) em) (ClearProjectCache em) s"

definition markRateLimited ::
  "'w env \<Rightarrow> string \<Rightarrow> int option \<Rightarrow> string \<Rightarrow> 'w dstate \<Rightarrow> 'w dstate" where
  "markRateLimited env em ms mdl s =
     via (am_markRateLimited (manager env) em ms mdl) (MarkRateLimited em ms mdl) s"

definition notifySuccess :: "'w env \<Rightarrow> account \<Rightarrow> string \<Rightarrow> 'w dstate \<Rightarrow> 'w dstate" where
  "notifySuccess env a mdl s = via (am_notifySuccess (manager env) a mdl) (NotifySuccess (email a) mdl) s"

definition notifyRateLimit :: "'w env \<Rightarrow> account \<Rightarrow> string \<Rightarrow> 'w dstate \<Rightarrow> 'w dstate" where
  "notifyRateLimit env a mdl s =
     via (am_notifyRateLimit (manager env) a mdl) (NotifyRateLimit (email a) mdl) s"

definition notifyFailure :: "'w env \<Rightarrow> account \<Rightarrow> string \<Rightarrow> 'w dstate \<Rightarrow> 'w dstate" where
  "notifyFailure env a mdl s =
     via (am_notifyFailure (manager env) a mdl) (NotifyFailure (email a) mdl) s"

definition getConsecutiveFailures ::
  "'w env \<Rightarrow> string \<Rightarrow> 'w dstate \<Rightarrow> int option \<times> 'w dstate" where
  "getConsecutiveFailures env em s =
     (am_getConsecutiveFailures (manager env) em (world s), log_event (GetConsecutiveFailures em) s)"

section \<open>Helpers of utils/helpers.js\<close>

text \<open>
  \<open>formatDuration\<close>: \<open>Math.floor\<close> of a quotient is \<open>div\<close>, and the remainder
  operator \<open>%\<close> takes the sign of the dividend (\<open>smod\<close>).
\<close>

definition formatDuration :: "int \<Rightarrow> string" where
  "formatDuration ms =
     (let seconds = ms div 1000;
          hours = seconds div 3600;
          minutes = (seconds smod 3600) div 60;
          secs = seconds smod 60
      in if hours > 0 then int_str hours @ ''h'' @ int_str minutes @ ''m'' @ int_str secs @ ''s''
         else if minutes > 0 then int_str minutes @ ''m'' @ int_str secs @ ''s''
         else int_str secs @ ''s'')"

definition isNetworkError :: "js_error \<Rightarrow> bool" where
  "isNetworkError error =
     (let msg = toLowerCase (message error)
      in js_includes msg ''fetch failed'' \<or>
         js_includes msg ''network error'' \<or>
         js_includes msg ''econnreset'' \<or>
         js_includes msg ''etimedout'' \<or>
         js_includes msg ''socket hang up'' \<or>
         js_includes msg ''timeout'')"

section \<open>Module-level helpers of the two handlers\<close>

text \<open>
  \<open>shouldSkipRetryDueToDedup\<close>, \<open>recordRateLimitTimestamp\<close> and
  \<open>clearRateLimitTimestamp\<close> of module \<open>h\<close> read and write the map of module \<open>h\<close>.
\<close>

definition shouldSkipRetryDueToDedup ::
  "handler_module \<Rightarrow> 'w env \<Rightarrow> string \<Rightarrow> 'w dstate \<Rightarrow> bool" where
  "shouldSkipRetryDueToDedup h env mdl s =
     (let lastTimestamp = lastRateLimitTimestamps s h mdl
      in if \<not> truthy_num lastTimestamp then False
         else (let elapsed = Date_now env s - the lastTimestamp
               in if elapsed < RATE_LIMIT_DEDUP_WINDOW_MS then True else False))"

definition recordRateLimitTimestamp ::
  "handler_module \<Rightarrow> 'w env \<Rightarrow> string \<Rightarrow> 'w dstate \<Rightarrow> 'w dstate" where
  "recordRateLimitTimestamp h env mdl s =
     s\<lparr>lastRateLimitTimestamps :=
         (lastRateLimitTimestamps s)(h := (lastRateLimitTimestamps s h)(mdl := Some (Date_now env s)))\<rparr>"

definition clearRateLimitTimestamp :: "handler_module \<Rightarrow> string \<Rightarrow> 'w dstate \<Rightarrow> 'w dstate" where
  "clearRateLimitTimestamp h mdl s =
     s\<lparr>lastRateLimitTimestamps :=
         (lastRateLimitTimestamps s)(h := (lastRateLimitTimestamps s h)(mdl := None))\<rparr>"


definition isPermanentAuthFailure :: "string \<Rightarrow> bool" where
  "isPermanentAuthFailure errText =
     (let lower = toLowerCase errText
      in js_includes lower ''invalid_grant'' \<or>
         js_includes lower ''token revoked'' \<or>
         js_includes lower ''token has been expired or revoked'' \<or>
         js_includes lower ''token_revoked'' \<or>
         js_includes lower ''invalid_client'' \<or>
         js_includes lower ''credentials are invalid'')"

definition isModelCapacityExhausted :: "string \<Rightarrow> bool" where
  "isModelCapacityExhausted errText =
     (let lower = toLowerCase errText
      in js_includes lower ''model_capacity_exhausted'' \<or>
         js_includes lower ''capacity_exhausted'' \<or>
         js_includes lower ''model is currently overloaded'' \<or>
         js_includes lower ''service temporarily unavailable'')"

section \<open>The endpoint loop: shared parts\<close>

text \<open>
  The variables of the endpoint loop of one account attempt, and what one pass through
  the body of its \<open>try\<close> does: return a value, throw, or \<open>continue\<close> with updated
  variables.
\<close>

record loop_ctx =
  lastError :: "js_error option"
  retriedOnce :: bool
  capacityRetryCount :: nat
  endpointIndex :: nat

definition initial_ctx :: loop_ctx where
  "initial_ctx = \<lparr> lastError = None, retriedOnce = False, capacityRetryCount = 0, endpointIndex = 0 \<rparr>"

datatype 'r step = Ret 'r | Raise js_error | Again loop_ctx

text \<open>What the \<open>try\<close> block around one account attempt ends with.\<close>

datatype 'r tried = Returned 'r | Thrown js_error | FellThrough

text \<open>The \<open>response.status === 401\<close> branch (the same text in both handlers).\<close>

definition on401 ::
  "'w env \<Rightarrow> account \<Rightarrow> string \<Rightarrow> loop_ctx \<Rightarrow> 'w dstate \<Rightarrow> 'r step \<times> 'w dstate" where
  "on401 env a errText c s =
     (if isPermanentAuthFailure errText
      then (Raise (new_Error (''AUTH_INVALID_PERMANENT: '' @ errText)),
            markInvalid env (email a) ''Token revoked - re-authentication required'' s)
      else (Again (c\<lparr>endpointIndex := endpointIndex c + 1\<rparr>),
            clearProjectCache env (email a) (clearTokenCache env (email a) s)))"

text \<open>
  The \<open>response.status === 429\<close> branch (the same text in both handlers, each with its
  own module's dedup helpers).  \<open>on429_rateLimit\<close> is the part after the capacity
  check: the dedup window, then the long and the short rate limit.
\<close>

definition on429_rateLimit ::
  "handler_module \<Rightarrow> 'w env \<Rightarrow> account \<Rightarrow> string \<Rightarrow> int option \<Rightarrow> string \<Rightarrow> loop_ctx \<Rightarrow>
     'w dstate \<Rightarrow> 'r step \<times> 'w dstate" where
  "on429_rateLimit h env a mdl resetMs errText c s =
     (if shouldSkipRetryDueToDedup h env mdl s
      then (Raise (new_Error (''RATE_LIMITED_DEDUP: '' @ errText)),
            markRateLimited env (email a) (Some (js_or resetMs DEFAULT_COOLDOWN_MS)) mdl s)
      else if truthy_num resetMs \<and> the resetMs > DEFAULT_COOLDOWN_MS
      then (Raise (new_Error (''QUOTA_EXHAUSTED: '' @ errText)),
            markRateLimited env (email a) resetMs mdl s)
      else
        (let waitMs = js_or resetMs DEFAULT_COOLDOWN_MS
         in if \<not> retriedOnce c
            then (Again (c\<lparr>retriedOnce := True\<rparr>),
                  sleep env waitMs (recordRateLimitTimestamp h env mdl s))
            else (Raise (new_Error (''RATE_LIMITED: '' @ errText)),
                  markRateLimited env (email a) (Some waitMs) mdl s)))"

definition on429 ::
  "handler_module \<Rightarrow> 'w env \<Rightarrow> account \<Rightarrow> string \<Rightarrow> response \<Rightarrow> string \<Rightarrow> loop_ctx \<Rightarrow>
     'w dstate \<Rightarrow> 'r step \<times> 'w dstate" where
  "on429 h env a mdl resp errText c s =
     (let resetMs = parseResetTime (imported env) resp errText
      in if isModelCapacityExhausted errText
         then (if capacityRetryCount c < MAX_CAPACITY_RETRIES
               then (let waitMs = js_or resetMs CAPACITY_RETRY_DELAY_MS
                     in (Again (c\<lparr>capacityRetryCount := capacityRetryCount c + 1\<rparr>),
                         sleep env waitMs s))
               else on429_rateLimit h env a mdl resetMs errText c s)
         else on429_rateLimit h env a mdl resetMs errText c s)"

text \<open>The measure that decreases on every \<open>continue\<close> of the endpoint loop.\<close>

definition ctx_measure :: "nat \<Rightarrow> loop_ctx \<Rightarrow> nat" where
  "ctx_measure n c =
     (n - endpointIndex c) * 5 + (MAX_CAPACITY_RETRIES - capacityRetryCount c)
       + (if retriedOnce c then 0 else 1)"

lemma on401_Again:
  assumes "on401 env a errText c s = (Again c', s')" "endpointIndex c < n"
  shows "ctx_measure n c' < ctx_measure n c"
  using assms by (auto simp: on401_def ctx_measure_def split: if_splits)

lemma on429_Again:
  assumes "on429 h env a mdl resp errText c s = (Again c', s')" "endpointIndex c < n"
  shows "ctx_measure n c' < ctx_measure n c"
  using assms
  by (auto simp: on429_def on429_rateLimit_def ctx_measure_def Let_def split: if_splits)

section \<open>Non-streaming dispatcher (message handler)\<close>

text \<open>The success path after the status checks of \<open>sendMessage\<close>.\<close>

definition message_success ::
  "'w env \<Rightarrow> request \<Rightarrow> account \<Rightarrow> response \<Rightarrow> 'w dstate \<Rightarrow> string step \<times> 'w dstate" where
  "message_success env req a resp s =
     (let mdl = model req
      in if isThinkingModel (imported env) mdl
         then (case parseThinkingSSEResponse (imported env) resp (model req) of
                 Inl e \<Rightarrow> (Raise e, s)
               | Inr result \<Rightarrow>
                   (Ret result, notifySuccess env a mdl (clearRateLimitTimestamp MessageHandler mdl s)))
         else (case response_json (imported env) resp of
                 Inl e \<Rightarrow> (Raise e, s)
               | Inr data \<Rightarrow>
                   (let s1 = notifySuccess env a mdl (clearRateLimitTimestamp MessageHandler mdl s)
                    in case convertGoogleToAnthropic (imported env) data (model req) of
                         Inl e \<Rightarrow> (Raise e, s1)
                       | Inr result \<Rightarrow> (Ret result, s1))))"

text \<open>
  One pass through the \<open>try\<close> body of the endpoint loop of \<open>sendMessage\<close>: the
  \<open>fetch\<close> (\<open>message_endpointAttempt\<close>), then the status branches and the success
  path (\<open>message_onResponse\<close>).  A status that is not \<open>ok\<close>, not 401, not 429 and
  below 400 falls through to the success path, as in the source.
\<close>

definition message_onResponse ::
  "'w env \<Rightarrow> request \<Rightarrow> account \<Rightarrow> response \<Rightarrow> loop_ctx \<Rightarrow> 'w dstate \<Rightarrow>
     string step \<times> 'w dstate" where
  "message_onResponse env req a resp c s1 =
     (if \<not> ok resp
      then (let errText = body resp
            in if status resp = 401 then on401 env a errText c s1
               else if status resp = 429
               then on429 MessageHandler env a (model req) resp errText c s1
               else if status resp \<ge> 400
               then (let c1 = c\<lparr>lastError :=
                           Some (new_Error (''API error '' @ nat_str (status resp) @ '': '' @ errText))\<rparr>;
                         s2 = (if status resp = 403 \<or> status resp = 404 then s1
                               else if status resp \<ge> 500 then sleep env 1000 s1
                               else s1)
                     in (Again (c1\<lparr>endpointIndex := endpointIndex c1 + 1\<rparr>), s2))
               else message_success env req a resp s1)
      else message_success env req a resp s1)"

definition message_url :: "'w env \<Rightarrow> request \<Rightarrow> loop_ctx \<Rightarrow> string" where
  "message_url env req c =
     (let endpoint = ANTIGRAVITY_ENDPOINT_FALLBACKS (imported env) ! endpointIndex c
      in if isThinkingModel (imported env) (model req)
         then endpoint @ ''/v1internal:streamGenerateContent?alt=sse''
         else endpoint @ ''/v1internal:generateContent'')"

definition message_init :: "'w env \<Rightarrow> request \<Rightarrow> string \<Rightarrow> string \<Rightarrow> fetch_init" where
  "message_init env req token payload =
     \<lparr> http_method = ''POST'',
       req_headers = buildHeaders (imported env) token (model req)
         (if isThinkingModel (imported env) (model req) then ''text/event-stream''
          else ''application/json''),
       req_body = payload, signal = None \<rparr>"

definition message_endpointAttempt ::
  "'w env \<Rightarrow> request \<Rightarrow> account \<Rightarrow> string \<Rightarrow> string \<Rightarrow> loop_ctx \<Rightarrow> 'w dstate \<Rightarrow>
     string step \<times> 'w dstate" where
  "message_endpointAttempt env req a token payload c s =
     (case fetch env (message_url env req c) (message_init env req token payload) s of
        (Inl e, s1) \<Rightarrow> (Raise e, s1)
      | (Inr resp, s1) \<Rightarrow> message_onResponse env req a resp c s1)"

lemma message_success_not_Again: "message_success env req a resp s \<noteq> (Again c', s')"
  by (auto simp: message_success_def Let_def split: sum.splits)

lemma message_onResponse_Again:
  assumes "message_onResponse env req a resp c s = (Again c', s')"
    and "endpointIndex c < n"
  shows "ctx_measure n c' < ctx_measure n c"
proof (cases "ok resp")
  case True
  with assms show ?thesis
    by (simp add: message_onResponse_def message_success_not_Again)
next
  case False
  note nok = this
  show ?thesis
  proof (cases "status resp = 401")
    case True
    with assms nok show ?thesis
      using on401_Again [of env a "body resp" c s c' s' n]
      by (simp add: message_onResponse_def)
  next
    case n401: False
    show ?thesis
    proof (cases "status resp = 429")
      case True
      with assms nok n401 show ?thesis
        using on429_Again [of MessageHandler env a "model req" resp "body resp" c s c' s' n]
        by (simp add: message_onResponse_def)
    next
      case n429: False
      show ?thesis
      proof (cases "status resp \<ge> 400")
        case True
        with assms nok n401 n429 have "c' = c\<lparr>lastError :=
              Some (new_Error (''API error '' @ nat_str (status resp) @ '': '' @ body resp)),
              endpointIndex := endpointIndex c + 1\<rparr>"
          by (simp add: message_onResponse_def Let_def)
        with assms(2) show ?thesis by (simp add: ctx_measure_def)
      next
        case False
        with assms nok n401 n429 show ?thesis
          by (simp add: message_onResponse_def message_success_not_Again)
      qed
    qed
  qed
qed

lemma message_endpointAttempt_Again:
  assumes "message_endpointAttempt env req a token payload c s = (Again c', s')"
    and "endpointIndex c < n"
  shows "ctx_measure n c' < ctx_measure n c"
  using assms message_onResponse_Again [of env req a _ c _ c' s' n]
  by (auto simp: message_endpointAttempt_def split: prod.splits sum.splits)

text \<open>
  The endpoint loop of \<open>sendMessage\<close> with its \<open>catch (endpointError)\<close> and the code
  after the loop.
\<close>

function message_endpointLoop ::
  "'w env \<Rightarrow> request \<Rightarrow> account \<Rightarrow> string \<Rightarrow> string \<Rightarrow> loop_ctx \<Rightarrow> 'w dstate \<Rightarrow>
     string tried \<times> 'w dstate" where
  "message_endpointLoop env req a token payload c s =
     (if endpointIndex c < length (ANTIGRAVITY_ENDPOINT_FALLBACKS (imported env))
      then (case message_endpointAttempt env req a token payload c s of
              (Ret result, s') \<Rightarrow> (Returned result, s')
            | (Again c', s') \<Rightarrow> message_endpointLoop env req a token payload c' s'
            | (Raise endpointError, s') \<Rightarrow>
                if isRateLimitError (imported env) endpointError then (Thrown endpointError, s')
                else message_endpointLoop env req a token payload
                       (c\<lparr>lastError := Some endpointError, endpointIndex := endpointIndex c + 1\<rparr>) s')
      else (case lastError c of
              Some le \<Rightarrow>
                if is429 le
                then (Thrown (new_Error (''Rate limited: '' @ template_str (errorText le))),
                      markRateLimited env (email a) (err_resetMs le) (model req) s)
                else (Thrown le, s)
            | None \<Rightarrow> (FellThrough, s)))"
  by pat_completeness auto
termination
proof (relation "measure (\<lambda>(env :: 'w env, req :: request, a :: account, token :: string,
          payload :: string, c :: loop_ctx, s :: 'w dstate).
          ctx_measure (length (ANTIGRAVITY_ENDPOINT_FALLBACKS (imported env))) c)", goal_cases)
  case 1
  show ?case by simp
next
  case (2 env req a token payload c s x s' e)
  then show ?case by (simp add: ctx_measure_def)
next
  case (3 env req a token payload c s x s' c')
  then show ?case
    using message_endpointAttempt_Again [of env req a token payload c s c' s']
    by simp
qed

declare message_endpointLoop.simps [simp del]

text \<open>
  The body of the outer \<open>try\<close> of \<open>sendMessage\<close>: token, project, payload, then the
  endpoint loop.
\<close>

definition message_tryAccount ::
  "'w env \<Rightarrow> request \<Rightarrow> account \<Rightarrow> 'w dstate \<Rightarrow> string tried \<times> 'w dstate" where
  "message_tryAccount env req a s =
     (case getTokenForAccount env a s of
        (Inl e, s1) \<Rightarrow> (Thrown e, s1)
      | (Inr token, s1) \<Rightarrow>
          (case getProjectForAccount env a token s1 of
             (Inl e, s2) \<Rightarrow> (Thrown e, s2)
           | (Inr project, s2) \<Rightarrow>
               (let payload = x_requestBody (imported env) req project
                in message_endpointLoop env req a token payload initial_ctx s2)))"

section \<open>The outer retry loop (the same text in both dispatchers)\<close>

text \<open>
  What one iteration of the outer \<open>for\<close> loop ends with: \<open>continue\<close>, a returned
  value, a thrown error, or the tail call of the dispatcher on the fallback request
  (\<open>return await sendMessage(fallbackRequest, accountManager, false)\<close>, respectively
  \<open>yield* sendMessageStream(fallbackRequest, accountManager, false); return\<close>).
\<close>

datatype 'r ctl = Continue | Return 'r | Throw js_error | Recurse request

definition resourceExhaustedError :: "'w env \<Rightarrow> string \<Rightarrow> int \<Rightarrow> string \<Rightarrow> js_error" where
  "resourceExhaustedError env mdl minWaitMs resetTimeStr =
     new_Error (''RESOURCE_EXHAUSTED: Rate limited on '' @ mdl @ ''. Quota will reset after ''
                @ formatDuration minWaitMs @ ''. Next available: '' @ resetTimeStr)"

text \<open>The branch \<open>availableAccounts.length === 0\<close>.\<close>

definition onNoAccounts ::
  "'w env \<Rightarrow> request \<Rightarrow> bool \<Rightarrow> 'w dstate \<Rightarrow> 'r ctl \<times> 'w dstate" where
  "onNoAccounts env req fallbackEnabled s =
     (let mdl = model req;
          (allLimited, s1) = isAllRateLimited env mdl s
      in if allLimited
         then (let (minWaitMs, s2) = getMinWaitTimeMs env mdl s1;
                   resetTimeStr = toISOString (imported env) (Date_now env s2 + minWaitMs)
               in if minWaitMs > MAX_WAIT_BEFORE_ERROR_MS
                  then (if fallbackEnabled
                        then (let fallbackModel = getFallbackModel (imported env) mdl
                              in if truthy_str fallbackModel
                                 then (Recurse (req\<lparr>model := the fallbackModel\<rparr>), s2)
                                 else (Throw (resourceExhaustedError env mdl minWaitMs resetTimeStr), s2))
                        else (Throw (resourceExhaustedError env mdl minWaitMs resetTimeStr), s2))
                  else (let (accountCount, s3) = getAccountCount env s2;
                            s4 = sleep env (minWaitMs + 500) s3
                        in (Continue, clearExpiredLimits env s4)))
         else (Throw (new_Error ''No accounts available''), s1))"

text \<open>
  The outer \<open>catch (error)\<close>.  \<open>getHealthTracker()?.getConsecutiveFailures(email) || 0\<close>
  is \<open>js_or\<close> of the manager's answer.
\<close>

definition consecutiveFailureCooldown ::
  "'w env \<Rightarrow> account \<Rightarrow> string \<Rightarrow> 'w dstate \<Rightarrow> 'w dstate" where
  "consecutiveFailureCooldown env a mdl s =
     (let s1 = notifyFailure env a mdl s;
          (cf, s2) = getConsecutiveFailures env (email a) s1;
          consecutiveFailures = js_or cf 0
      in if consecutiveFailures \<ge> MAX_CONSECUTIVE_FAILURES
         then markRateLimited env (email a) (Some EXTENDED_COOLDOWN_MS) mdl s2
         else s2)"

definition onAttemptError ::
  "'w env \<Rightarrow> request \<Rightarrow> account \<Rightarrow> js_error \<Rightarrow> 'w dstate \<Rightarrow> 'r ctl \<times> 'w dstate" where
  "onAttemptError env req a error s =
     (let mdl = model req
      in if isRateLimitError (imported env) error
         then (Continue, notifyRateLimit env a mdl s)
         else if isAuthError (imported env) error
         then (Continue, s)
         else if js_includes (message error) ''API error 5'' \<or>
                 js_includes (message error) ''500'' \<or>
                 js_includes (message error) ''503''
         then (Continue, consecutiveFailureCooldown env a mdl s)
         else if isNetworkError error
         then (Continue, sleep env 1000 (consecutiveFailureCooldown env a mdl s))
         else (Throw error, s))"

text \<open>
  One iteration of the outer loop.  \<open>tryAccount\<close> is the body of the \<open>try\<close> block of
  the dispatcher at hand.
\<close>

definition outerAttempt ::
  "('w env \<Rightarrow> request \<Rightarrow> account \<Rightarrow> 'w dstate \<Rightarrow> 'r tried \<times> 'w dstate) \<Rightarrow>
     'w env \<Rightarrow> request \<Rightarrow> bool \<Rightarrow> 'w dstate \<Rightarrow> 'r ctl \<times> 'w dstate" where
  "outerAttempt tryAccount env req fallbackEnabled s =
     (let mdl = model req;
          s1 = clearExpiredLimits env s;
          (availableAccounts, s2) = getAvailableAccounts env mdl s1
      in if length availableAccounts = 0
         then onNoAccounts env req fallbackEnabled s2
         else (let ((selected, waitMs), s3) = selectAccount_call env mdl s2
               in case selected of
                    None \<Rightarrow>
                      if waitMs > 0 then (Continue, sleep env (waitMs + 500) s3)
                      else (Continue, s3)
                  | Some a \<Rightarrow>
                      (case tryAccount env req a s3 of
                         (Returned result, s4) \<Rightarrow> (Return result, s4)
                       | (Thrown error, s4) \<Rightarrow> onAttemptError env req a error s4
                       | (FellThrough, s4) \<Rightarrow> (Continue, s4))))"

text \<open>What the loop, with the code after it, ends with.\<close>

datatype 'r finished = Done "js_error + 'r" | TailCall request

text \<open>The code after the loop: \<open>All retries exhausted\<close>.\<close>

definition afterLoop :: "'w env \<Rightarrow> request \<Rightarrow> bool \<Rightarrow> 'w dstate \<Rightarrow> 'r finished \<times> 'w dstate" where
  "afterLoop env req fallbackEnabled s =
     (if fallbackEnabled
      then (let fallbackModel = getFallbackModel (imported env) (model req)
            in if truthy_str fallbackModel
               then (TailCall (req\<lparr>model := the fallbackModel\<rparr>), s)
               else (Done (Inl (new_Error ''Max retries exceeded'')), s))
      else (Done (Inl (new_Error ''Max retries exceeded'')), s))"

function outerLoop ::
  "('w env \<Rightarrow> request \<Rightarrow> account \<Rightarrow> 'w dstate \<Rightarrow> 'r tried \<times> 'w dstate) \<Rightarrow>
     'w env \<Rightarrow> request \<Rightarrow> bool \<Rightarrow> nat \<Rightarrow> nat \<Rightarrow> 'w dstate \<Rightarrow> 'r finished \<times> 'w dstate" where
  "outerLoop tryAccount env req fallbackEnabled maxAttempts attempt s =
     (if attempt < maxAttempts
      then (case outerAttempt tryAccount env req fallbackEnabled s of
              (Continue, s') \<Rightarrow>
                outerLoop tryAccount env req fallbackEnabled maxAttempts (attempt + 1) s'
            | (Return result, s') \<Rightarrow> (Done (Inr result), s')
            | (Throw error, s') \<Rightarrow> (Done (Inl error), s')
            | (Recurse fallbackRequest, s') \<Rightarrow> (TailCall fallbackRequest, s'))
      else afterLoop env req fallbackEnabled s)"
  by pat_completeness auto
termination
  by (relation "measure (\<lambda>(tryAccount, env, req, fallbackEnabled, maxAttempts, attempt, s).
          maxAttempts - attempt)") auto

declare outerLoop.simps [simp del]

text \<open>
  With \<open>fallbackEnabled = false\<close> neither the loop nor the code after it reaches a
  tail call.
\<close>

lemma onNoAccounts_no_Recurse:
  "onNoAccounts env req False s \<noteq> (Recurse q, s')"
  by (auto simp: onNoAccounts_def Let_def split: prod.splits if_splits)

lemma onAttemptError_no_Recurse:
  "onAttemptError env req a error s \<noteq> (Recurse q, s')"
  by (auto simp: onAttemptError_def Let_def split: if_splits)

lemma outerAttempt_no_Recurse:
  "outerAttempt tryAccount env req False s \<noteq> (Recurse q, s')"
  using onNoAccounts_no_Recurse [of env req _ q s'] onAttemptError_no_Recurse [of env req _ _ _ q s']
  by (auto simp: outerAttempt_def Let_def split: prod.splits option.splits tried.splits if_splits)

lemma outerLoop_no_TailCall:
  "outerLoop tryAccount env req False maxAttempts attempt s \<noteq> (TailCall q, s')"
proof (induction tryAccount env req False maxAttempts attempt s rule: outerLoop.induct)
  case (1 tryAccount env req maxAttempts attempt s)
  show ?case
  proof (cases "attempt < maxAttempts")
    case False
    then show ?thesis
      by (subst outerLoop.simps) (simp add: afterLoop_def)
  next
    case True
    obtain r s1 where o: "outerAttempt tryAccount env req False s = (r, s1)"
      by (cases "outerAttempt tryAccount env req False s") auto
    show ?thesis
    proof (cases r)
      case Continue
      with 1 [OF True o [symmetric]] True o show ?thesis
        by (subst outerLoop.simps) simp
    next
      case (Recurse x)
      with o outerAttempt_no_Recurse [of tryAccount env req s x s1] show ?thesis by simp
    qed (use True o in \<open>subst outerLoop.simps, simp\<close>)+
  qed
qed

section \<open>sendMessage\<close>

text \<open>
  \<open>sendMessage(anthropicRequest, accountManager, fallbackEnabled)\<close>: the result is the
  returned response or the thrown error, with the state the call leaves behind.
\<close>

function sendMessage ::
  "'w env \<Rightarrow> request \<Rightarrow> bool \<Rightarrow> 'w dstate \<Rightarrow> (js_error + string) \<times> 'w dstate" where
  "sendMessage env req fallbackEnabled s =
     (let (accountCount, s0) = getAccountCount env s;
          maxAttempts = max MAX_RETRIES (accountCount + 1)
      in case outerLoop message_tryAccount env req fallbackEnabled maxAttempts 0 s0 of
           (Done r, s') \<Rightarrow> (r, s')
         | (TailCall fallbackRequest, s') \<Rightarrow> sendMessage env fallbackRequest False s')"
  by pat_completeness auto
termination
proof (relation "measure (\<lambda>(env :: 'w env, req :: request, fallbackEnabled, s :: 'w dstate).
          if fallbackEnabled then 1 else 0)", goal_cases)
  case 1
  show ?case by simp
next
  case (2 env req fallbackEnabled s x accountCount s0 maxAttempts y s' fallbackRequest)
  then have "fallbackEnabled"
    using outerLoop_no_TailCall [of message_tryAccount env req maxAttempts 0 s0 fallbackRequest s']
    by (cases fallbackEnabled) auto
  then show ?case by simp
qed

declare sendMessage.simps [simp del]

section \<open>Streaming dispatcher (streaming handler)\<close>

text \<open>\<open>yield* events\<close>: the events go to the consumer in order.\<close>

definition yield_all :: "sse_event list \<Rightarrow> 'w dstate \<Rightarrow> 'w dstate" where
  "yield_all evs s = s\<lparr>emitted := emitted s @ evs\<rparr>"

text \<open>\<open>crypto.randomBytes(n).toString('hex')\<close>: two lower-case hex digits per byte.\<close>

definition hex_digit :: "nat \<Rightarrow> char" where
  "hex_digit n = ''0123456789abcdef'' ! n"

definition hex_byte :: "8 word \<Rightarrow> string" where
  "hex_byte b = [hex_digit (unat b div 16), hex_digit (unat b mod 16)]"

definition randomBytes :: "'w env \<Rightarrow> nat \<Rightarrow> 'w dstate \<Rightarrow> 8 word list" where
  "randomBytes env n s = map (rt_randomByte (runtime env) (world s)) [0..<n]"

definition toString_hex :: "8 word list \<Rightarrow> string" where
  "toString_hex bs = concat (map hex_byte bs)"

definition emitEmptyResponseFallback :: "'w env \<Rightarrow> string \<Rightarrow> 'w dstate \<Rightarrow> sse_event list" where
  "emitEmptyResponseFallback env mdl s =
     (let messageId = ''msg_'' @ toString_hex (randomBytes env 16 s)
      in [ message_start \<lparr> msg_id = messageId, msg_type = ''message'', msg_role = ''assistant'',
                            msg_content = [], msg_model = mdl, msg_stop_reason = None,
                            msg_stop_sequence = None, usage_input_tokens = 0,
                            usage_output_tokens = 0 \<rparr>,
           content_block_start 0 ''text'' '''',
           content_block_delta 0 ''text_delta'' ''[No response after retries - please try again]'',
           content_block_stop 0,
           message_delta (Some ''end_turn'') None 0,
           message_stop ])"

definition stream_url :: "'w env \<Rightarrow> loop_ctx \<Rightarrow> string" where
  "stream_url env c =
     ANTIGRAVITY_ENDPOINT_FALLBACKS (imported env) ! endpointIndex c
       @ ''/v1internal:streamGenerateContent?alt=sse''"

definition stream_init :: "'w env \<Rightarrow> request \<Rightarrow> string \<Rightarrow> string \<Rightarrow> fetch_init" where
  "stream_init env req token payload =
     \<lparr> http_method = ''POST'',
       req_headers = buildHeaders (imported env) token (model req) ''text/event-stream'',
       req_body = payload, signal = None \<rparr>"

text \<open>
  The handling of a response that is not \<open>ok\<close> inside the empty-response retry: 429,
  401, one more try after a 5xx, otherwise an error.  The result is the response to
  stream next, or the error thrown.
\<close>

definition stream_onRetryResponse ::
  "'w env \<Rightarrow> request \<Rightarrow> account \<Rightarrow> string \<Rightarrow> fetch_init \<Rightarrow> response \<Rightarrow> 'w dstate \<Rightarrow>
     (js_error + response) \<times> 'w dstate" where
  "stream_onRetryResponse env req a url init resp s =
     (if \<not> ok resp
      then (let retryErrorText = body resp
            in if status resp = 429
               then (Inl (new_Error (''429 RESOURCE_EXHAUSTED during retry: '' @ retryErrorText)),
                     markRateLimited env (email a)
                       (parseResetTime (imported env) resp retryErrorText) (model req) s)
               else if status resp = 401
               then (if isPermanentAuthFailure retryErrorText
                     then (Inl (new_Error (''AUTH_INVALID_PERMANENT: '' @ retryErrorText)),
                           markInvalid env (email a) ''Token revoked - re-authentication required'' s)
                     else (Inl (new_Error (''401 AUTH_INVALID during retry: '' @ retryErrorText)),
                           clearProjectCache env (email a) (clearTokenCache env (email a) s)))
               else if status resp \<ge> 500
               then (case fetch env url init (sleep env 1000 s) of
                       (Inl e, s2) \<Rightarrow> (Inl e, s2)
                     | (Inr resp2, s2) \<Rightarrow>
                         if ok resp2 then (Inr resp2, s2)
                         else (Inl (new_Error (''Empty response retry failed: ''
                                 @ nat_str (status resp2) @ '' - '' @ retryErrorText)), s2))
               else (Inl (new_Error (''Empty response retry failed: ''
                       @ nat_str (status resp) @ '' - '' @ retryErrorText)), s))
      else (Inr resp, s))"

text \<open>
  The loop \<open>for (emptyRetries = 0; emptyRetries <= MAX_EMPTY_RESPONSE_RETRIES; emptyRetries++)\<close>.
  Leaving the loop by its condition would reach the end of the \<open>try\<close> body and start
  the next pass of the endpoint loop with unchanged variables (\<open>Again c\<close>).
\<close>

function stream_emptyRetryLoop ::
  "'w env \<Rightarrow> request \<Rightarrow> account \<Rightarrow> string \<Rightarrow> fetch_init \<Rightarrow> loop_ctx \<Rightarrow> nat \<Rightarrow> response \<Rightarrow>
     'w dstate \<Rightarrow> unit step \<times> 'w dstate" where
  "stream_emptyRetryLoop env req a url init c emptyRetries currentResponse s =
     (if emptyRetries \<le> MAX_EMPTY_RESPONSE_RETRIES
      then (let mdl = model req;
                (evs, ended) = x_streamSSEResponse (imported env) currentResponse (model req);
                s1 = yield_all evs s
            in case ended of
                 None \<Rightarrow>
                   (Ret (), notifySuccess env a mdl (clearRateLimitTimestamp StreamingHandler mdl s1))
               | Some streamError \<Rightarrow>
                   if \<not> isEmptyResponseError (imported env) streamError
                   then (Raise streamError, s1)
                   else if emptyRetries \<ge> MAX_EMPTY_RESPONSE_RETRIES
                   then (Ret (), yield_all (emitEmptyResponseFallback env (model req) s1) s1)
                   else (let backoffMs = 500 * 2 ^ emptyRetries
                         in case fetch env url init (sleep env backoffMs s1) of
                              (Inl e, s3) \<Rightarrow> (Raise e, s3)
                            | (Inr resp, s3) \<Rightarrow>
                                (case stream_onRetryResponse env req a url init resp s3 of
                                   (Inl e, s4) \<Rightarrow> (Raise e, s4)
                                 | (Inr next_response, s4) \<Rightarrow>
                                     stream_emptyRetryLoop env req a url init c
                                       (emptyRetries + 1) next_response s4)))
      else (Again c, s))"
  by pat_completeness auto
termination
  by (relation "measure (\<lambda>(env, req, a, url, init, c, emptyRetries, currentResponse, s).
          Suc MAX_EMPTY_RESPONSE_RETRIES - emptyRetries)") auto

declare stream_emptyRetryLoop.simps [simp del]

lemma stream_emptyRetryLoop_not_Again:
  "emptyRetries \<le> MAX_EMPTY_RESPONSE_RETRIES \<Longrightarrow>
   stream_emptyRetryLoop env req a url init c emptyRetries currentResponse s \<noteq> (Again c', s')"
proof (induction env req a url init c emptyRetries currentResponse s
    rule: stream_emptyRetryLoop.induct)
  case (1 env req a url init c emptyRetries currentResponse s)
  obtain evs ended where x:
    "x_streamSSEResponse (imported env) currentResponse (model req) = (evs, ended)"
    by (cases "x_streamSSEResponse (imported env) currentResponse (model req)") auto
  show ?case
  proof (cases ended)
    case None
    with x "1.prems" show ?thesis
      by (subst stream_emptyRetryLoop.simps) (simp add: Let_def)
  next
    case (Some streamError)
    show ?thesis
    proof (cases "isEmptyResponseError (imported env) streamError \<and>
                  emptyRetries < MAX_EMPTY_RESPONSE_RETRIES")
      case False
      with x Some "1.prems" show ?thesis
        by (subst stream_emptyRetryLoop.simps) (auto simp: Let_def)
    next
      case True
      obtain fr s3 where f:
        "fetch env url init (sleep env (500 * 2 ^ emptyRetries) (yield_all evs s)) = (fr, s3)"
        by (cases "fetch env url init (sleep env (500 * 2 ^ emptyRetries) (yield_all evs s))") auto
      show ?thesis
      proof (cases fr)
        case (Inl e)
        with x Some True f "1.prems" show ?thesis
          by (subst stream_emptyRetryLoop.simps) (simp add: Let_def)
      next
        case (Inr resp)
        obtain rr s4 where r: "stream_onRetryResponse env req a url init resp s3 = (rr, s4)"
          by (cases "stream_onRetryResponse env req a url init resp s3") auto
        show ?thesis
        proof (cases rr)
          case (Inl e)
          with x Some True f Inr r "1.prems" show ?thesis
            by (subst stream_emptyRetryLoop.simps) (simp add: Let_def)
        next
          case inr: (Inr next_response)
          have le: "emptyRetries + 1 \<le> MAX_EMPTY_RESPONSE_RETRIES" using True by simp
          have ih: "stream_emptyRetryLoop env req a url init c (emptyRetries + 1) next_response s4
              \<noteq> (Again c', s')"
          proof -
            have nn: "\<not> \<not> isEmptyResponseError (imported env) streamError" using True by simp
            have nmax: "\<not> MAX_EMPTY_RESPONSE_RETRIES \<le> emptyRetries" using True by simp
            show ?thesis
              by (rule "1.IH" [OF "1.prems" refl refl x [symmetric] refl Some nn nmax refl
                    f [symmetric] Inr r [symmetric] inr le])
          qed
          with x Some True f Inr r inr "1.prems" show ?thesis
            by (subst stream_emptyRetryLoop.simps) (simp add: Let_def)
        qed
      qed
    qed
  qed
qed

text \<open>
  One pass through the \<open>try\<close> body of the endpoint loop of \<open>sendMessageStream\<close>:
  the \<open>fetch\<close>, the status branches, and the streaming of the response with the
  empty-response retry.
\<close>

definition stream_onResponse ::
  "'w env \<Rightarrow> request \<Rightarrow> account \<Rightarrow> string \<Rightarrow> string \<Rightarrow> response \<Rightarrow> loop_ctx \<Rightarrow> 'w dstate \<Rightarrow>
     unit step \<times> 'w dstate" where
  "stream_onResponse env req a token payload resp c s1 =
     (if \<not> ok resp
      then (let errText = body resp
            in if status resp = 401 then on401 env a errText c s1
               else if status resp = 429
               then on429 StreamingHandler env a (model req) resp errText c s1
               else (let c1 = c\<lparr>lastError :=
                           Some (new_Error (''API error '' @ nat_str (status resp) @ '': '' @ errText))\<rparr>;
                         s2 = (if status resp = 403 \<or> status resp = 404 then s1
                               else if status resp \<ge> 500 then sleep env 1000 s1
                               else s1)
                     in (Again (c1\<lparr>endpointIndex := endpointIndex c1 + 1\<rparr>), s2)))
      else stream_emptyRetryLoop env req a (stream_url env c) (stream_init env req token payload)
             c 0 resp s1)"

definition stream_endpointAttempt ::
  "'w env \<Rightarrow> request \<Rightarrow> account \<Rightarrow> string \<Rightarrow> string \<Rightarrow> loop_ctx \<Rightarrow> 'w dstate \<Rightarrow>
     unit step \<times> 'w dstate" where
  "stream_endpointAttempt env req a token payload c s =
     (case fetch env (stream_url env c) (stream_init env req token payload) s of
        (Inl e, s1) \<Rightarrow> (Raise e, s1)
      | (Inr resp, s1) \<Rightarrow> stream_onResponse env req a token payload resp c s1)"

lemma stream_onResponse_Again:
  assumes "stream_onResponse env req a token payload resp c s = (Again c', s')"
    and "endpointIndex c < n"
  shows "ctx_measure n c' < ctx_measure n c"
proof (cases "ok resp")
  case True
  with assms show ?thesis
    using stream_emptyRetryLoop_not_Again
      [of 0 env req a "stream_url env c" "stream_init env req token payload" c resp s c' s']
    by (simp add: stream_onResponse_def)
next
  case False
  note nok = this
  show ?thesis
  proof (cases "status resp = 401")
    case True
    with assms nok show ?thesis
      using on401_Again [of env a "body resp" c s c' s' n]
      by (simp add: stream_onResponse_def)
  next
    case n401: False
    show ?thesis
    proof (cases "status resp = 429")
      case True
      with assms nok n401 show ?thesis
        using on429_Again [of StreamingHandler env a "model req" resp "body resp" c s c' s' n]
        by (simp add: stream_onResponse_def)
    next
      case False
      with assms nok n401 have "c' = c\<lparr>lastError :=
            Some (new_Error (''API error '' @ nat_str (status resp) @ '': '' @ body resp)),
            endpointIndex := endpointIndex c + 1\<rparr>"
        by (simp add: stream_onResponse_def Let_def)
      with assms(2) show ?thesis by (simp add: ctx_measure_def)
    qed
  qed
qed

lemma stream_endpointAttempt_Again:
  assumes "stream_endpointAttempt env req a token payload c s = (Again c', s')"
    and "endpointIndex c < n"
  shows "ctx_measure n c' < ctx_measure n c"
  using assms stream_onResponse_Again [of env req a token payload _ c _ c' s' n]
  by (auto simp: stream_endpointAttempt_def split: prod.splits sum.splits)

text \<open>
  The endpoint loop of \<open>sendMessageStream\<close> with its \<open>catch (endpointError)\<close> and the
  code after the loop.
\<close>

function stream_endpointLoop ::
  "'w env \<Rightarrow> request \<Rightarrow> account \<Rightarrow> string \<Rightarrow> string \<Rightarrow> loop_ctx \<Rightarrow> 'w dstate \<Rightarrow>
     unit tried \<times> 'w dstate" where
  "stream_endpointLoop env req a token payload c s =
     (if endpointIndex c < length (ANTIGRAVITY_ENDPOINT_FALLBACKS (imported env))
      then (case stream_endpointAttempt env req a token payload c s of
              (Ret result, s') \<Rightarrow> (Returned result, s')
            | (Again c', s') \<Rightarrow> stream_endpointLoop env req a token payload c' s'
            | (Raise endpointError, s') \<Rightarrow>
                if isRateLimitError (imported env) endpointError then (Thrown endpointError, s')
                else if isEmptyResponseError (imported env) endpointError
                then (Thrown endpointError, s')
                else stream_endpointLoop env req a token payload
                       (c\<lparr>lastError := Some endpointError, endpointIndex := endpointIndex c + 1\<rparr>) s')
      else (case lastError c of
              Some le \<Rightarrow>
                if is429 le
                then (Thrown (new_Error (''Rate limited: '' @ template_str (errorText le))),
                      markRateLimited env (email a) (err_resetMs le) (model req) s)
                else (Thrown le, s)
            | None \<Rightarrow> (FellThrough, s)))"
  by pat_completeness auto
termination
proof (relation "measure (\<lambda>(env :: 'w env, req :: request, a :: account, token :: string,
          payload :: string, c :: loop_ctx, s :: 'w dstate).
          ctx_measure (length (ANTIGRAVITY_ENDPOINT_FALLBACKS (imported env))) c)", goal_cases)
  case 1
  show ?case by simp
next
  case (2 env req a token payload c s x s' e)
  then show ?case by (simp add: ctx_measure_def)
next
  case (3 env req a token payload c s x s' c')
  then show ?case
    using stream_endpointAttempt_Again [of env req a token payload c s c' s']
    by simp
qed

declare stream_endpointLoop.simps [simp del]

definition stream_tryAccount ::
  "'w env \<Rightarrow> request \<Rightarrow> account \<Rightarrow> 'w dstate \<Rightarrow> unit tried \<times> 'w dstate" where
  "stream_tryAccount env req a s =
     (case getTokenForAccount env a s of
        (Inl e, s1) \<Rightarrow> (Thrown e, s1)
      | (Inr token, s1) \<Rightarrow>
          (case getProjectForAccount env a token s1 of
             (Inl e, s2) \<Rightarrow> (Thrown e, s2)
           | (Inr project, s2) \<Rightarrow>
               (let payload = x_requestBody (imported env) req project
                in stream_endpointLoop env req a token payload initial_ctx s2)))"

section \<open>sendMessageStream\<close>

text \<open>
  \<open>sendMessageStream(anthropicRequest, accountManager, fallbackEnabled)\<close>, run to the
  end by its consumer: the generator returns (\<open>Inr ()\<close>) or throws, and the events it
  yielded are in \<open>emitted\<close>.
\<close>

function sendMessageStream ::
  "'w env \<Rightarrow> request \<Rightarrow> bool \<Rightarrow> 'w dstate \<Rightarrow> (js_error + unit) \<times> 'w dstate" where
  "sendMessageStream env req fallbackEnabled s =
     (let (accountCount, s0) = getAccountCount env s;
          maxAttempts = max MAX_RETRIES (accountCount + 1)
      in case outerLoop stream_tryAccount env req fallbackEnabled maxAttempts 0 s0 of
           (Done r, s') \<Rightarrow> (r, s')
         | (TailCall fallbackRequest, s') \<Rightarrow> sendMessageStream env fallbackRequest False s')"
  by pat_completeness auto
termination
proof (relation "measure (\<lambda>(env :: 'w env, req :: request, fallbackEnabled, s :: 'w dstate).
          if fallbackEnabled then 1 else 0)", goal_cases)
  case 1
  show ?case by simp
next
  case (2 env req fallbackEnabled s x accountCount s0 maxAttempts y s' fallbackRequest)
  then have "fallbackEnabled"
    using outerLoop_no_TailCall [of stream_tryAccount env req maxAttempts 0 s0 fallbackRequest s']
    by (cases fallbackEnabled) auto
  then show ?case by simp
qed

declare sendMessageStream.simps [simp del]

section \<open>Counting outer iterations and signalled fetches\<close>

text \<open>
  Each iteration of the outer loop calls \<open>accountManager.getAvailableAccounts(model)\<close>
  exactly once, and nothing else calls it: the number of these calls in the trace is
  the number of outer iterations run.
\<close>

fun is_iteration_start :: "event \<Rightarrow> bool" where
  "is_iteration_start (GetAvailableAccounts m) = True"
| "is_iteration_start _ = False"

definition outer_iterations :: "'w dstate \<Rightarrow> nat" where
  "outer_iterations s = length (filter is_iteration_start (trace s))"

text \<open>
  A \<open>fetch\<close> whose init object has a \<open>signal\<close> member is the only way the handlers
  could hand an abort signal to the upstream I/O.
\<close>

fun carries_signal :: "event \<Rightarrow> bool" where
  "carries_signal (Fetch url init) = (signal init \<noteq> None)"
| "carries_signal _ = False"

definition signalled_fetches :: "'w dstate \<Rightarrow> nat" where
  "signalled_fetches s = length (filter carries_signal (trace s))"

abbreviation quiet :: "'w dstate \<Rightarrow> 'w dstate \<Rightarrow> bool" where
  "quiet s s' \<equiv> outer_iterations s' = outer_iterations s \<and>
                signalled_fetches s' = signalled_fetches s"

section \<open>Token counting (\<open>cloudcode/count-tokens.js\<close>)\<close>
























section \<open>Concrete scenarios\<close>





subsection \<open>A scripted upstream\<close>

text \<open>
  A small concrete world for the scenarios: the upstream answers each \<open>fetch\<close> with the
  next response of a script (and rejects with \<open>fetch failed\<close> when the script is used
  up), a sleep advances the clock, and the account manager always offers the one
  account.  The reset time of a 429 is read off phrases of the body.
\<close>

record script_world =
  pending :: "response list"
  clock :: int

definition the_account :: account where
  "the_account =
     \<lparr> email = ''user@example.com'', enabled = True, isInvalid = False, lastUsed = None,
       modelRateLimits = (\<lambda>m. None), quota = None \<rparr>"

definition scripted_manager :: "script_world account_manager" where
  "scripted_manager =
     \<lparr> am_getAccountCount = (\<lambda>w. 1),
       am_clearExpiredLimits = (\<lambda>w. w),
       am_getAvailableAccounts = (\<lambda>m w. [the_account]),
       am_isAllRateLimited = (\<lambda>m w. False),
       am_getMinWaitTimeMs = (\<lambda>m w. 0),
       am_selectAccount = (\<lambda>m w. ((Some the_account, 0), w)),
       am_pickNext = (\<lambda>m w. (Some the_account, w)),
       am_getTokenForAccount = (\<lambda>a w. (Inr ''token'', w)),
       am_getProjectForAccount = (\<lambda>a t w. (Inr ''project'', w)),
       am_markInvalid = (\<lambda>e r w. w),
       am_clearTokenCache = (\<lambda>e w. w),
       am_clearProjectCache = (\<lambda>e w. w),
       am_markRateLimited = (\<lambda>e ms m w. w),
       am_notifySuccess = (\<lambda>a m w. w),
       am_notifyRateLimit = (\<lambda>a m w. w),
       am_notifyFailure = (\<lambda>a m w. w),
       am_getConsecutiveFailures = (\<lambda>e w. None) \<rparr>"

definition scripted_runtime :: "script_world runtime" where
  "scripted_runtime =
     \<lparr> rt_fetch = (\<lambda>url init w.
          case pending w of
            [] \<Rightarrow> (Inl (new_Error ''fetch failed''), w)
          | r # rs \<Rightarrow> (Inr r, w\<lparr>pending := rs\<rparr>)),
       rt_setTimeout = (\<lambda>ms w. w\<lparr>clock := clock w + ms\<rparr>),
       rt_now = clock,
       rt_randomByte = (\<lambda>w i. of_nat (17 * i + 3)) \<rparr>"

definition empty_response_error :: js_error where
  "empty_response_error =
     \<lparr> message = ''No content parts received'', err_name = ''EmptyResponseError'',
       is429 = False, err_resetMs = None, errorText = None \<rparr>"

definition scripted_modules :: modules where
  "scripted_modules =
     \<lparr> ANTIGRAVITY_ENDPOINT_FALLBACKS = [''https://daily.example'', ''https://prod.example''],
       isThinkingModel = (\<lambda>m. False),
       getFallbackModel = (\<lambda>m. if m = ''big'' then Some ''small'' else None),
       isRateLimitError = (\<lambda>e. js_includes (message e) ''QUOTA_EXHAUSTED'' \<or>
                                js_includes (message e) ''RATE_LIMITED'' \<or>
                                js_includes (message e) ''429''),
       isAuthError = (\<lambda>e. js_includes (message e) ''AUTH_INVALID''),
       isEmptyResponseError = (\<lambda>e. err_name e = ''EmptyResponseError''),
       parseResetTime = (\<lambda>r t. if js_includes t ''retry in 0s'' then Some 0
                                else if js_includes t ''retry in 3s'' then Some 3000
                                else if js_includes t ''retry in 60s'' then Some 60000
                                else None),
       x_requestBody = (\<lambda>req project. ''{}''),
       buildHeaders = (\<lambda>token m accept. [(''Authorization'', ''Bearer '' @ token), (''Accept'', accept)]),
       parseThinkingSSEResponse = (\<lambda>r m. Inr (body r)),
       response_json = (\<lambda>r. Inr (body r)),
       convertGoogleToAnthropic = (\<lambda>d m. Inr d),
       x_streamSSEResponse = (\<lambda>r m. if body r = [] then ([], Some empty_response_error)
                                      else ([upstream_event (body r)], None)),
       toISOString = (\<lambda>t. int_str t),
       promptTokenCount = (\<lambda>d. if d = [] then None else Some (length d)),
       encode = (\<lambda>t. Some (map of_char t)),
       json_stringify = (\<lambda>v. case v of None \<Rightarrow> ''{}'' | Some t \<Rightarrow> t) \<rparr>"

definition scripted_env :: "script_world env" where
  "scripted_env =
     \<lparr> manager = scripted_manager, runtime = scripted_runtime, imported = scripted_modules \<rparr>"

definition scripted_state :: "response list \<Rightarrow> script_world dstate" where
  "scripted_state rs =
     \<lparr> world = \<lparr> pending = rs, clock = 1700000000000 \<rparr>, trace = [],
       lastRateLimitTimestamps = (\<lambda>h m. None), emitted = [] \<rparr>"

definition scripted_request :: request where
  "scripted_request =
     \<lparr> model = ''big'', messages = Some [], system = None, tools = None, max_tokens = None,
       stream_flag = None \<rparr>"

definition http_response :: "nat \<Rightarrow> string \<Rightarrow> response" where
  "http_response st txt = \<lparr> status = st, body = txt, headers = [] \<rparr>"

text \<open>A 429 whose reset time parses to \<open>0\<close>, and one whose reset time is three seconds.\<close>

definition zero_reset_response :: response where
  "zero_reset_response = http_response 429 ''quota exceeded, retry in 0s''"

definition short_reset_response :: response where
  "short_reset_response = http_response 429 ''quota exceeded, retry in 3s''"

definition scripted_post :: fetch_init where
  "scripted_post =
     \<lparr> http_method = ''POST'',
       req_headers = [(''Authorization'', ''Bearer token''), (''Accept'', ''application/json'')],
       req_body = ''{}'', signal = None \<rparr>"

definition after_first_fetch :: "response list \<Rightarrow> script_world dstate" where
  "after_first_fetch rs =
     \<lparr> world = \<lparr> pending = rs, clock = 1700000000000 \<rparr>,
       trace = [Fetch ''https://daily.example/v1internal:generateContent'' scripted_post],
       lastRateLimitTimestamps = (\<lambda>h m. None), emitted = [] \<rparr>"

text \<open>
  A 429 whose body reports exhausted model capacity and carries no reset time, the same
  with a reset time that parses to \<open>0\<close>, and a 200.
\<close>

definition capacity_response :: response where
  "capacity_response = http_response 429 ''MODEL_CAPACITY_EXHAUSTED: try later''"

definition capacity_zero_response :: response where
  "capacity_zero_response = http_response 429 ''model_capacity_exhausted, retry in 0s''"

definition ok_response :: response where
  "ok_response = http_response 200 ''hello''"

text \<open>The POST to the first endpoint, and the scripted state with no dedup entries.\<close>

definition post_daily :: event where
  "post_daily = Fetch ''https://daily.example/v1internal:generateContent'' scripted_post"

definition scripted_at :: "response list \<Rightarrow> int \<Rightarrow> event list \<Rightarrow> script_world dstate" where
  "scripted_at rs t tr =
     \<lparr> world = \<lparr> pending = rs, clock = t \<rparr>, trace = tr,
       lastRateLimitTimestamps = (\<lambda>h m. None), emitted = [] \<rparr>"

text \<open>The calls of a dispatch up to the first \<open>fetch\<close> on the first account.\<close>

definition first_account_events :: "event list" where
  "first_account_events =
     [GetAccountCount, ClearExpiredLimits, GetAvailableAccounts ''big'', SelectAccount ''big'',
      GetTokenForAccount ''user@example.com'', GetProjectForAccount ''user@example.com'']"

text \<open>
  A world in which every account is rate-limited for the model, with a given minimum
  remaining wait.
\<close>

definition locked_env :: "int \<Rightarrow> script_world env" where
  "locked_env minWait =
     scripted_env\<lparr>manager := scripted_manager
       \<lparr> am_getAvailableAccounts := (\<lambda>m w. []),
         am_isAllRateLimited := (\<lambda>m w. True),
         am_getMinWaitTimeMs := (\<lambda>m w. minWait) \<rparr>\<rparr>"

text \<open>The calls of one outer iteration that finds every account rate-limited.\<close>

definition locked_events :: "string \<Rightarrow> event list" where
  "locked_events m =
     [ClearExpiredLimits, GetAvailableAccounts m, IsAllRateLimited m, GetMinWaitTimeMs m]"

text \<open>An upstream that answers every POST with a 200 whose stream is empty.\<close>

definition empty_body_response :: response where
  "empty_body_response = http_response 200 ''''"

definition empty_env :: "script_world env" where
  "empty_env =
     scripted_env\<lparr>runtime := scripted_runtime
       \<lparr> rt_fetch := (\<lambda>url init w. (Inr empty_body_response, w)) \<rparr>\<rparr>"

text \<open>The streaming POST to the first endpoint, and the synthetic stream with the id the
  scripted random bytes give.\<close>

definition stream_post :: fetch_init where
  "stream_post =
     \<lparr> http_method = ''POST'',
       req_headers = [(''Authorization'', ''Bearer token''), (''Accept'', ''text/event-stream'')],
       req_body = ''{}'', signal = None \<rparr>"

definition post_daily_stream :: event where
  "post_daily_stream =
     Fetch ''https://daily.example/v1internal:streamGenerateContent?alt=sse'' stream_post"

definition scripted_fallback_stream :: "sse_event list" where
  "scripted_fallback_stream =
     [ message_start \<lparr> msg_id = ''msg_031425364758697a8b9cadbecfe0f102'',
                       msg_type = ''message'', msg_role = ''assistant'', msg_content = [],
                       msg_model = ''big'', msg_stop_reason = None, msg_stop_sequence = None,
                       usage_input_tokens = 0, usage_output_tokens = 0 \<rparr>,
       content_block_start 0 ''text'' [],
       content_block_delta 0 ''text_delta'' ''[No response after retries - please try again]'',
       content_block_stop 0,
       message_delta (Some ''end_turn'') None 0,
       message_stop ]"


text \<open>An account manager whose strategy never hands out an account and asks for no wait.\<close>

definition idle_env :: "script_world env" where
  "idle_env =
     scripted_env\<lparr>manager := scripted_manager
       \<lparr> am_selectAccount := (\<lambda>m w. ((None, 0), w)) \<rparr>\<rparr>"





section \<open>Auxiliary facts\<close>

lemma js_or_cases:
  "js_or v d = (case v of None \<Rightarrow> d | Some n \<Rightarrow> if n = 0 then d else n)"
  by (simp add: js_or_def truthy_num_def split: option.splits)

lemma status_429_not_ok: "status resp = 429 \<Longrightarrow> \<not> ok resp"
  by (simp add: ok_def)

lemma initial_ctx_sel:
  "retriedOnce initial_ctx = False" "capacityRetryCount initial_ctx = 0"
  "endpointIndex initial_ctx = 0" "lastError initial_ctx = None"
  by (simp_all add: initial_ctx_def)

lemma fetch_trace:
  "fetch env url init s = (r, s1) \<Longrightarrow> trace s1 = trace s @ [Fetch url init]"
  by (auto simp: fetch_def log_event_def split: prod.splits)

lemmas scripted_defs =
  scripted_env_def scripted_manager_def scripted_runtime_def scripted_modules_def
  scripted_state_def scripted_request_def http_response_def the_account_def

lemma scripted_at_fetch:
  "fetch scripted_env url init (scripted_at (r # rs) t tr)
     = (Inr r, scripted_at rs t (tr @ [Fetch url init]))"
  by (simp add: fetch_def log_event_def scripted_at_def scripted_env_def scripted_runtime_def)

lemma scripted_at_sleep:
  "sleep scripted_env ms (scripted_at rs t tr) = scripted_at rs (t + ms) (tr @ [Sleep ms])"
  by (simp add: sleep_def via_def log_event_def scripted_at_def scripted_env_def
      scripted_runtime_def)

lemma scripted_at_clear:
  "clearRateLimitTimestamp h m (scripted_at rs t tr) = scripted_at rs t tr"
  by (simp add: clearRateLimitTimestamp_def scripted_at_def fun_eq_iff)

lemma scripted_at_notifySuccess:
  "notifySuccess scripted_env a m (scripted_at rs t tr)
     = scripted_at rs t (tr @ [NotifySuccess (email a) m])"
  by (simp add: notifySuccess_def via_def log_event_def scripted_at_def scripted_env_def
      scripted_manager_def)

lemma scripted_at_markRateLimited:
  "markRateLimited scripted_env e ms m (scripted_at rs t tr)
     = scripted_at rs t (tr @ [MarkRateLimited e ms m])"
  by (simp add: markRateLimited_def via_def log_event_def scripted_at_def scripted_env_def
      scripted_manager_def)

lemma scripted_at_no_dedup:
  "\<not> shouldSkipRetryDueToDedup h scripted_env m (scripted_at rs t tr)"
  by (simp add: shouldSkipRetryDueToDedup_def scripted_at_def truthy_num_def)

lemma scripted_state_at: "scripted_state rs = scripted_at rs 1700000000000 []"
  by (simp add: scripted_state_def scripted_at_def)

lemma scripted_message_url:
  "endpointIndex c = 0 \<Longrightarrow>
   message_url scripted_env scripted_request c = ''https://daily.example/v1internal:generateContent''"
  by (simp add: message_url_def scripted_env_def scripted_modules_def scripted_request_def)

lemma scripted_message_init:
  "message_init scripted_env scripted_request ''token'' ''{}'' = scripted_post"
  by (simp add: message_init_def scripted_env_def scripted_modules_def scripted_request_def
      scripted_post_def)

lemma scripted_message_fetch:
  "endpointIndex c = 0 \<Longrightarrow>
   fetch scripted_env (message_url scripted_env scripted_request c)
     (message_init scripted_env scripted_request ''token'' ''{}'') (scripted_at (r # rs) t tr)
   = (Inr r, scripted_at rs t (tr @ [post_daily]))"
  by (simp add: scripted_message_url scripted_message_init scripted_at_fetch post_daily_def)

lemma scripted_endpoints:
  "length (ANTIGRAVITY_ENDPOINT_FALLBACKS (imported scripted_env)) = 2"
  by (simp add: scripted_env_def scripted_modules_def)

lemma capacity_facts:
  "status capacity_response = 429"
  "isModelCapacityExhausted (body capacity_response)"
  "parseResetTime (imported scripted_env) capacity_response (body capacity_response) = None"
  "status capacity_zero_response = 429"
  "isModelCapacityExhausted (body capacity_zero_response)"
  "parseResetTime (imported scripted_env) capacity_zero_response (body capacity_zero_response)
     = Some 0"
  by (simp_all add: capacity_response_def capacity_zero_response_def http_response_def
      scripted_env_def scripted_modules_def
      isModelCapacityExhausted_def toLowerCase_def lower_char_def)

lemma scripted_imported:
  "isThinkingModel (imported scripted_env) m = False"
  "response_json (imported scripted_env) r = Inr (body r)"
  "convertGoogleToAnthropic (imported scripted_env) d m = Inr d"
  "x_requestBody (imported scripted_env) req project = ''{}''"
  "isEmptyResponseError (imported scripted_env) e = (err_name e = ''EmptyResponseError'')"
  "isRateLimitError (imported scripted_env) e =
     (js_includes (message e) ''QUOTA_EXHAUSTED'' \<or> js_includes (message e) ''RATE_LIMITED'' \<or>
      js_includes (message e) ''429'')"
  "getFallbackModel (imported scripted_env) m = (if m = ''big'' then Some ''small'' else None)"
  by (simp_all add: scripted_env_def scripted_modules_def)

lemma scripted_values:
  "model scripted_request = ''big''"
  "email the_account = ''user@example.com''"
  "ok ok_response" "body ok_response = ''hello''" "status ok_response = 200"
  by (simp_all add: scripted_request_def the_account_def ok_response_def http_response_def ok_def)

lemma scripted_success:
  "endpointIndex c = 0 \<Longrightarrow>
   message_endpointLoop scripted_env scripted_request the_account ''token'' ''{}'' c
     (scripted_at (ok_response # rs) t tr)
   = (Returned ''hello'',
      scripted_at rs t (tr @ [post_daily, NotifySuccess ''user@example.com'' ''big'']))"
  by (subst message_endpointLoop.simps)
     (simp add: scripted_endpoints message_endpointAttempt_def scripted_message_fetch
        message_onResponse_def message_success_def scripted_at_clear scripted_at_notifySuccess
        scripted_imported scripted_values Let_def)

lemma scripted_at_manager:
  "getAccountCount scripted_env (scripted_at rs t tr) = (1, scripted_at rs t (tr @ [GetAccountCount]))"
  "clearExpiredLimits scripted_env (scripted_at rs t tr) = scripted_at rs t (tr @ [ClearExpiredLimits])"
  "getAvailableAccounts scripted_env m (scripted_at rs t tr)
     = ([the_account], scripted_at rs t (tr @ [GetAvailableAccounts m]))"
  "selectAccount_call scripted_env m (scripted_at rs t tr)
     = ((Some the_account, 0), scripted_at rs t (tr @ [SelectAccount m]))"
  "getTokenForAccount scripted_env a (scripted_at rs t tr)
     = (Inr ''token'', scripted_at rs t (tr @ [GetTokenForAccount (email a)]))"
  "getProjectForAccount scripted_env a token (scripted_at rs t tr)
     = (Inr ''project'', scripted_at rs t (tr @ [GetProjectForAccount (email a)]))"
  by (simp_all add: getAccountCount_def clearExpiredLimits_def getAvailableAccounts_def
      selectAccount_call_def getTokenForAccount_def getProjectForAccount_def via_def
      log_event_def scripted_at_def scripted_env_def scripted_manager_def)

lemma scripted_sendMessage_first_account:
  assumes "message_endpointLoop scripted_env scripted_request the_account ''token'' ''{}''
             initial_ctx
             (scripted_at rs 1700000000000
                [GetAccountCount, ClearExpiredLimits, GetAvailableAccounts ''big'',
                 SelectAccount ''big'', GetTokenForAccount ''user@example.com'',
                 GetProjectForAccount ''user@example.com''])
           = (Returned result, s')"
  shows "sendMessage scripted_env scripted_request fb (scripted_state rs) = (Inr result, s')"
  apply (subst sendMessage.simps)
  apply (simp add: scripted_state_at scripted_at_manager MAX_RETRIES_def)
  apply (subst outerLoop.simps)
  apply (simp add: outerAttempt_def scripted_at_manager scripted_values message_tryAccount_def
      scripted_imported assms Let_def)
  done


lemma scripted_first_fetch:
  "fetch scripted_env (message_url scripted_env scripted_request initial_ctx)
     (message_init scripted_env scripted_request ''token'' ''{}'') (scripted_state (r # rs))
   = (Inr r, after_first_fetch rs)"
  by (simp add: fetch_def log_event_def message_url_def message_init_def scripted_defs
      initial_ctx_def after_first_fetch_def scripted_post_def)

lemma scripted_no_dedup:
  "\<not> shouldSkipRetryDueToDedup h scripted_env m (after_first_fetch rs)"
  by (simp add: shouldSkipRetryDueToDedup_def after_first_fetch_def truthy_num_def)

lemma scripted_429_facts:
  "status zero_reset_response = 429"
  "status short_reset_response = 429"
  "parseResetTime (imported scripted_env) zero_reset_response (body zero_reset_response) = Some 0"
  "parseResetTime (imported scripted_env) short_reset_response (body short_reset_response) = Some 3000"
  "\<not> isModelCapacityExhausted (body zero_reset_response)"
  "\<not> isModelCapacityExhausted (body short_reset_response)"
  by (simp_all add: zero_reset_response_def short_reset_response_def scripted_defs
      isModelCapacityExhausted_def toLowerCase_def lower_char_def)

section \<open>Properties of the quota tracker\<close>




section \<open>Properties of the hybrid strategy\<close>
























section \<open>Properties of the dedup maps\<close>

lemma dedup_frame [simp]:
  "lastRateLimitTimestamps (log_event e s) = lastRateLimitTimestamps s"
  "lastRateLimitTimestamps (via f e s) = lastRateLimitTimestamps s"
  "lastRateLimitTimestamps (sleep env ms s) = lastRateLimitTimestamps s"
  by (simp_all add: log_event_def via_def sleep_def)


section \<open>Properties of the 429 handling of sendMessage\<close>

text \<open>
  Claim C1 (amended).  For an upstream 429 handled in the endpoint loop of
  \<open>sendMessage\<close> that is neither taken by the capacity branch nor suppressed by the
  dedup window: if the parsed \<open>resetMs\<close> is known and above \<open>DEFAULT_COOLDOWN_MS\<close>
  (10000 ms) the account is marked rate-limited with exactly \<open>resetMs\<close> and
  \<open>QUOTA_EXHAUSTED\<close> is thrown (and leaves the endpoint loop when \<open>isRateLimitError\<close>
  recognises it); if \<open>resetMs\<close> is unknown or at most 10000 and \<open>retriedOnce\<close> is
  false, \<open>retriedOnce\<close> is set, the dedup timestamp of the model is recorded, the
  dispatcher sleeps \<open>waitMs\<close> and the same endpoint is tried again; if \<open>retriedOnce\<close>
  is already true the account is marked rate-limited for \<open>waitMs\<close> and \<open>RATE_LIMITED\<close>
  is thrown.  \<open>waitMs\<close> is \<open>resetMs\<close> when it is known and not zero, and
  \<open>DEFAULT_COOLDOWN_MS\<close> when it is unknown or zero (\<open>resetMs || DEFAULT_COOLDOWN_MS\<close>).
\<close>

theorem sendMessage_429_decision:
  assumes idx: "endpointIndex c < length (ANTIGRAVITY_ENDPOINT_FALLBACKS (imported env))"
    and fetched: "fetch env (message_url env req c) (message_init env req token payload) s
                    = (Inr resp, s1)"
    and st: "status resp = 429"
    and reset: "resetMs = parseResetTime (imported env) resp (body resp)"
    and nocap: "\<not> (isModelCapacityExhausted (body resp) \<and> capacityRetryCount c < MAX_CAPACITY_RETRIES)"
    and nodedup: "\<not> shouldSkipRetryDueToDedup MessageHandler env (model req) s1"
    and wait: "waitMs = (case resetMs of None \<Rightarrow> DEFAULT_COOLDOWN_MS
                         | Some r \<Rightarrow> if r = 0 then DEFAULT_COOLDOWN_MS else r)"
  shows
    "DEFAULT_COOLDOWN_MS = 10000 \<and>
     (\<forall>r. resetMs = Some r \<and> r > DEFAULT_COOLDOWN_MS \<longrightarrow>
          message_endpointAttempt env req a token payload c s
            = (Raise (new_Error (''QUOTA_EXHAUSTED: '' @ body resp)),
               markRateLimited env (email a) (Some r) (model req) s1) \<and>
          (isRateLimitError (imported env) (new_Error (''QUOTA_EXHAUSTED: '' @ body resp)) \<longrightarrow>
             message_endpointLoop env req a token payload c s
               = (Thrown (new_Error (''QUOTA_EXHAUSTED: '' @ body resp)),
                  markRateLimited env (email a) (Some r) (model req) s1))) \<and>
     ((resetMs = None \<or> (\<exists>r. resetMs = Some r \<and> r \<le> DEFAULT_COOLDOWN_MS)) \<and> \<not> retriedOnce c \<longrightarrow>
          message_endpointAttempt env req a token payload c s
            = (Again (c\<lparr>retriedOnce := True\<rparr>),
               sleep env waitMs (recordRateLimitTimestamp MessageHandler env (model req) s1)) \<and>
          message_endpointLoop env req a token payload c s
            = message_endpointLoop env req a token payload (c\<lparr>retriedOnce := True\<rparr>)
                (sleep env waitMs (recordRateLimitTimestamp MessageHandler env (model req) s1)) \<and>
          endpointIndex (c\<lparr>retriedOnce := True\<rparr>) = endpointIndex c \<and>
          lastRateLimitTimestamps
              (sleep env waitMs (recordRateLimitTimestamp MessageHandler env (model req) s1))
              MessageHandler (model req) = Some (Date_now env s1) \<and>
          trace (sleep env waitMs (recordRateLimitTimestamp MessageHandler env (model req) s1))
            = trace s1 @ [Sleep waitMs]) \<and>
     ((resetMs = None \<or> (\<exists>r. resetMs = Some r \<and> r \<le> DEFAULT_COOLDOWN_MS)) \<and> retriedOnce c \<longrightarrow>
          message_endpointAttempt env req a token payload c s
            = (Raise (new_Error (''RATE_LIMITED: '' @ body resp)),
               markRateLimited env (email a) (Some waitMs) (model req) s1) \<and>
          (isRateLimitError (imported env) (new_Error (''RATE_LIMITED: '' @ body resp)) \<longrightarrow>
             message_endpointLoop env req a token payload c s
               = (Thrown (new_Error (''RATE_LIMITED: '' @ body resp)),
                  markRateLimited env (email a) (Some waitMs) (model req) s1)))"
proof -
  have w: "waitMs = js_or resetMs DEFAULT_COOLDOWN_MS"
    using wait by (simp add: js_or_cases)
  have att: "message_endpointAttempt env req a token payload c s
      = on429_rateLimit MessageHandler env a (model req) resetMs (body resp) c s1"
    using fetched st nocap reset status_429_not_ok [OF st]
    by (auto simp: message_endpointAttempt_def message_onResponse_def on429_def Let_def)
  have long: "message_endpointAttempt env req a token payload c s
            = (Raise (new_Error (''QUOTA_EXHAUSTED: '' @ body resp)),
               markRateLimited env (email a) (Some r) (model req) s1)"
    if "resetMs = Some r" "r > DEFAULT_COOLDOWN_MS" for r
    using that nodedup
    by (simp add: att on429_rateLimit_def truthy_num_def DEFAULT_COOLDOWN_MS_def)
  have short_cond: "\<not> (truthy_num resetMs \<and> the resetMs > DEFAULT_COOLDOWN_MS)"
    if "resetMs = None \<or> (\<exists>r. resetMs = Some r \<and> r \<le> DEFAULT_COOLDOWN_MS)"
    using that by (auto simp: truthy_num_def)
  have short1: "message_endpointAttempt env req a token payload c s
            = (Again (c\<lparr>retriedOnce := True\<rparr>),
               sleep env waitMs (recordRateLimitTimestamp MessageHandler env (model req) s1))"
    if "resetMs = None \<or> (\<exists>r. resetMs = Some r \<and> r \<le> DEFAULT_COOLDOWN_MS)" "\<not> retriedOnce c"
    by (simp add: att on429_rateLimit_def Let_def w short_cond [OF that(1)] that(2) nodedup)
  have short2: "message_endpointAttempt env req a token payload c s
            = (Raise (new_Error (''RATE_LIMITED: '' @ body resp)),
               markRateLimited env (email a) (Some waitMs) (model req) s1)"
    if "resetMs = None \<or> (\<exists>r. resetMs = Some r \<and> r \<le> DEFAULT_COOLDOWN_MS)" "retriedOnce c"
    by (simp add: att on429_rateLimit_def Let_def w short_cond [OF that(1)] that(2) nodedup)
  have loop_raise: "message_endpointLoop env req a token payload c s = (Thrown e, s')"
    if "message_endpointAttempt env req a token payload c s = (Raise e, s')"
       "isRateLimitError (imported env) e" for e s'
    using that idx by (subst message_endpointLoop.simps) simp
  have loop_again: "message_endpointLoop env req a token payload c s
      = message_endpointLoop env req a token payload c' s'"
    if "message_endpointAttempt env req a token payload c s = (Again c', s')" for c' s'
    using that idx by (subst message_endpointLoop.simps) simp
  have rec: "lastRateLimitTimestamps
              (sleep env waitMs (recordRateLimitTimestamp MessageHandler env (model req) s1))
              MessageHandler (model req) = Some (Date_now env s1)"
    by (simp add: recordRateLimitTimestamp_def)
  have tr: "trace (sleep env waitMs (recordRateLimitTimestamp MessageHandler env (model req) s1))
            = trace s1 @ [Sleep waitMs]"
    by (simp add: sleep_def via_def log_event_def recordRateLimitTimestamp_def)
  show ?thesis
    using long short1 short2 loop_raise loop_again rec tr
    by (auto simp: DEFAULT_COOLDOWN_MS_def)
qed


lemma scripted_fetch:
  "fetch scripted_env url init (s\<lparr>world := \<lparr>pending = r # rs, clock = t\<rparr>\<rparr>)
     = (Inr r, s\<lparr>world := \<lparr>pending = rs, clock = t\<rparr>, trace := trace s @ [Fetch url init]\<rparr>)"
  by (simp add: fetch_def scripted_env_def scripted_runtime_def log_event_def)

text \<open>A 429 with a reset time of three seconds on the first try: sleep 3000 and retry.\<close>

theorem sendMessage_429_decision_witness:
  "endpointIndex initial_ctx < length (ANTIGRAVITY_ENDPOINT_FALLBACKS (imported scripted_env)) \<and>
   fetch scripted_env (message_url scripted_env scripted_request initial_ctx)
       (message_init scripted_env scripted_request ''token'' ''{}'')
       (scripted_state [short_reset_response])
     = (Inr short_reset_response, after_first_fetch []) \<and>
   status short_reset_response = 429 \<and>
   parseResetTime (imported scripted_env) short_reset_response (body short_reset_response)
     = Some 3000 \<and>
   \<not> isModelCapacityExhausted (body short_reset_response) \<and>
   \<not> shouldSkipRetryDueToDedup MessageHandler scripted_env (model scripted_request)
        (after_first_fetch []) \<and>
   (3000 :: int) \<le> DEFAULT_COOLDOWN_MS \<and> \<not> retriedOnce initial_ctx \<and>
   message_endpointAttempt scripted_env scripted_request the_account ''token'' ''{}'' initial_ctx
       (scripted_state [short_reset_response])
     = (Again (initial_ctx\<lparr>retriedOnce := True\<rparr>),
        sleep scripted_env 3000
          (recordRateLimitTimestamp MessageHandler scripted_env (model scripted_request)
             (after_first_fetch []))) \<and>
   trace (sleep scripted_env 3000
          (recordRateLimitTimestamp MessageHandler scripted_env (model scripted_request)
             (after_first_fetch [])))
     = trace (after_first_fetch []) @ [Sleep 3000]"
proof -
  have idx: "endpointIndex initial_ctx < length (ANTIGRAVITY_ENDPOINT_FALLBACKS (imported scripted_env))"
    by (simp add: initial_ctx_def scripted_defs)
  have nocap: "\<not> (isModelCapacityExhausted (body short_reset_response) \<and>
      capacityRetryCount initial_ctx < MAX_CAPACITY_RETRIES)"
    by (simp add: scripted_429_facts)
  have reset: "Some 3000 = parseResetTime (imported scripted_env) short_reset_response
      (body short_reset_response)"
    by (simp add: scripted_429_facts)
  have wait: "(3000 :: int) = (case Some 3000 of None \<Rightarrow> DEFAULT_COOLDOWN_MS
      | Some r \<Rightarrow> if r = 0 then DEFAULT_COOLDOWN_MS else r)"
    by simp
  have short: "(3000 :: int) \<le> DEFAULT_COOLDOWN_MS" by (simp add: DEFAULT_COOLDOWN_MS_def)
  have nr: "\<not> retriedOnce initial_ctx" by (simp add: initial_ctx_def)
  note T = sendMessage_429_decision [OF idx scripted_first_fetch scripted_429_facts(2) reset
      nocap scripted_no_dedup wait, of the_account]
  show ?thesis
    using T idx scripted_first_fetch [of short_reset_response "[]"] scripted_429_facts
      scripted_no_dedup [of MessageHandler "model scripted_request" "[]"] short nr
    by simp
qed

text \<open>
  Claim C1 as stated fails where the reset time parses to \<open>0\<close>: it is known and at most
  \<open>DEFAULT_COOLDOWN_MS\<close>, yet the dispatcher sleeps 10000 ms, not 0 ms.
\<close>

theorem sendMessage_429_zero_reset:
  "status zero_reset_response = 429 \<and>
   parseResetTime (imported scripted_env) zero_reset_response (body zero_reset_response) = Some 0 \<and>
   (0 :: int) \<le> DEFAULT_COOLDOWN_MS \<and>
   \<not> retriedOnce initial_ctx \<and>
   \<not> isModelCapacityExhausted (body zero_reset_response) \<and>
   fetch scripted_env (message_url scripted_env scripted_request initial_ctx)
       (message_init scripted_env scripted_request ''token'' ''{}'')
       (scripted_state [zero_reset_response])
     = (Inr zero_reset_response, after_first_fetch []) \<and>
   \<not> shouldSkipRetryDueToDedup MessageHandler scripted_env (model scripted_request)
        (after_first_fetch []) \<and>
   trace (snd (message_endpointAttempt scripted_env scripted_request the_account ''token'' ''{}''
      initial_ctx (scripted_state [zero_reset_response])))
     = [Fetch ''https://daily.example/v1internal:generateContent'' scripted_post, Sleep 10000] \<and>
   Sleep 0 \<notin> set (trace (snd (message_endpointAttempt scripted_env scripted_request the_account
      ''token'' ''{}'' initial_ctx (scripted_state [zero_reset_response]))))"
proof -
  have att: "message_endpointAttempt scripted_env scripted_request the_account ''token'' ''{}''
      initial_ctx (scripted_state [zero_reset_response])
     = (Again (initial_ctx\<lparr>retriedOnce := True\<rparr>),
        sleep scripted_env 10000
          (recordRateLimitTimestamp MessageHandler scripted_env (model scripted_request)
             (after_first_fetch [])))"
    by (simp add: message_endpointAttempt_def scripted_first_fetch message_onResponse_def
        on429_def on429_rateLimit_def scripted_429_facts scripted_no_dedup
        status_429_not_ok js_or_def truthy_num_def DEFAULT_COOLDOWN_MS_def Let_def
        initial_ctx_sel)
  have tr: "trace (snd (message_endpointAttempt scripted_env scripted_request the_account ''token'' ''{}''
      initial_ctx (scripted_state [zero_reset_response])))
     = [Fetch ''https://daily.example/v1internal:generateContent'' scripted_post, Sleep 10000]"
    by (simp add: att sleep_def via_def log_event_def recordRateLimitTimestamp_def
        after_first_fetch_def)
  show ?thesis
    using scripted_first_fetch [of zero_reset_response "[]"] scripted_429_facts
      scripted_no_dedup [of MessageHandler "model scripted_request" "[]"]
    by (simp add: tr DEFAULT_COOLDOWN_MS_def initial_ctx_sel)
qed

section \<open>Properties of the capacity retry\<close>

text \<open>
  Claim C6 (amended).  For a 429 whose body satisfies \<open>isModelCapacityExhausted\<close>, while
  \<open>capacityRetryCount < MAX_CAPACITY_RETRIES\<close> (3) the dispatcher increments
  \<open>capacityRetryCount\<close>, sleeps \<open>waitMs\<close> and retries the same endpoint:
  \<open>endpointIndex\<close> is unchanged, the only calls made are the \<open>fetch\<close> and the sleep
  (no account is marked rate-limited) and the dedup map is untouched.  \<open>waitMs\<close> is
  \<open>resetMs\<close> when it is known and not zero, and \<open>CAPACITY_RETRY_DELAY_MS\<close> (2000 ms)
  when it is unknown or zero.  Once the retries are used up a further capacity 429 goes
  through the dedup / long / short rate-limit logic with the loop variables unchanged.
\<close>

theorem capacity_retry:
  assumes idx: "endpointIndex c < length (ANTIGRAVITY_ENDPOINT_FALLBACKS (imported env))"
    and fetched: "fetch env (message_url env req c) (message_init env req token payload) s
                    = (Inr resp, s1)"
    and st: "status resp = 429"
    and cap: "isModelCapacityExhausted (body resp)"
    and reset: "resetMs = parseResetTime (imported env) resp (body resp)"
    and wait: "waitMs = (case resetMs of None \<Rightarrow> CAPACITY_RETRY_DELAY_MS
                         | Some r \<Rightarrow> if r = 0 then CAPACITY_RETRY_DELAY_MS else r)"
  shows
    "MAX_CAPACITY_RETRIES = 3 \<and> CAPACITY_RETRY_DELAY_MS = 2000 \<and>
     (capacityRetryCount c < MAX_CAPACITY_RETRIES \<longrightarrow>
        message_endpointAttempt env req a token payload c s
          = (Again (c\<lparr>capacityRetryCount := capacityRetryCount c + 1\<rparr>), sleep env waitMs s1) \<and>
        message_endpointLoop env req a token payload c s
          = message_endpointLoop env req a token payload
              (c\<lparr>capacityRetryCount := capacityRetryCount c + 1\<rparr>) (sleep env waitMs s1) \<and>
        endpointIndex (c\<lparr>capacityRetryCount := capacityRetryCount c + 1\<rparr>) = endpointIndex c \<and>
        trace (sleep env waitMs s1)
          = trace s @ [Fetch (message_url env req c) (message_init env req token payload),
                       Sleep waitMs] \<and>
        lastRateLimitTimestamps (sleep env waitMs s1) = lastRateLimitTimestamps s1) \<and>
     (\<not> capacityRetryCount c < MAX_CAPACITY_RETRIES \<longrightarrow>
        message_endpointAttempt env req a token payload c s
          = on429_rateLimit MessageHandler env a (model req) resetMs (body resp) c s1)"
proof -
  have w: "waitMs = js_or resetMs CAPACITY_RETRY_DELAY_MS"
    using wait by (simp add: js_or_cases)
  have nok: "\<not> ok resp" using st by (simp add: ok_def)
  have att: "message_endpointAttempt env req a token payload c s
      = on429 MessageHandler env a (model req) resp (body resp) c s1"
    using fetched st nok by (simp add: message_endpointAttempt_def message_onResponse_def)
  have retry: "message_endpointAttempt env req a token payload c s
          = (Again (c\<lparr>capacityRetryCount := capacityRetryCount c + 1\<rparr>), sleep env waitMs s1)"
    if "capacityRetryCount c < MAX_CAPACITY_RETRIES"
    using that cap reset by (simp add: att on429_def Let_def w)
  have loop: "message_endpointLoop env req a token payload c s
          = message_endpointLoop env req a token payload
              (c\<lparr>capacityRetryCount := capacityRetryCount c + 1\<rparr>) (sleep env waitMs s1)"
    if "capacityRetryCount c < MAX_CAPACITY_RETRIES"
    using retry [OF that] idx by (subst message_endpointLoop.simps) simp
  have tr: "trace (sleep env waitMs s1)
          = trace s @ [Fetch (message_url env req c) (message_init env req token payload),
                       Sleep waitMs]"
    using fetch_trace [OF fetched] by (simp add: sleep_def via_def log_event_def)
  have through: "message_endpointAttempt env req a token payload c s
          = on429_rateLimit MessageHandler env a (model req) resetMs (body resp) c s1"
    if "\<not> capacityRetryCount c < MAX_CAPACITY_RETRIES"
    using that cap reset by (simp add: att on429_def Let_def)
  show ?thesis
    using retry loop tr through
    by (simp add: MAX_CAPACITY_RETRIES_def CAPACITY_RETRY_DELAY_MS_def)
qed

text \<open>
  Three capacity-exhausted 429s without a reset time, then a 200: three sleeps of 2000 ms
  on the first endpoint, \<open>capacityRetryCount\<close> reaches 3, the request succeeds and no
  account is marked rate-limited.
\<close>

theorem capacity_retry_witness:
  "message_endpointLoop scripted_env scripted_request the_account ''token'' ''{}'' initial_ctx
     (scripted_at [capacity_response, capacity_response, capacity_response, ok_response]
        1700000000000 first_account_events)
   = message_endpointLoop scripted_env scripted_request the_account ''token'' ''{}''
       (initial_ctx\<lparr>capacityRetryCount := 3\<rparr>)
       (scripted_at [ok_response] 1700000006000
          (first_account_events @
           [post_daily, Sleep 2000, post_daily, Sleep 2000, post_daily, Sleep 2000])) \<and>
   endpointIndex (initial_ctx\<lparr>capacityRetryCount := 3\<rparr>) = 0 \<and>
   sendMessage scripted_env scripted_request False
     (scripted_state [capacity_response, capacity_response, capacity_response, ok_response])
   = (Inr ''hello'',
      scripted_at [] 1700000006000
        (first_account_events @
         [post_daily, Sleep 2000, post_daily, Sleep 2000, post_daily, Sleep 2000,
          post_daily, NotifySuccess ''user@example.com'' ''big'']))"
proof -
  let ?loop = "message_endpointLoop scripted_env scripted_request the_account ''token'' ''{}''"
  have w: "(2000 :: int) = (case None of None \<Rightarrow> CAPACITY_RETRY_DELAY_MS
      | Some r \<Rightarrow> if r = 0 then CAPACITY_RETRY_DELAY_MS else r)"
    by (simp add: CAPACITY_RETRY_DELAY_MS_def)
  have step: "?loop c (scripted_at (capacity_response # rs) t tr)
      = ?loop (c\<lparr>capacityRetryCount := capacityRetryCount c + 1\<rparr>)
          (scripted_at rs (t + 2000) (tr @ [post_daily, Sleep 2000]))"
    if c: "endpointIndex c = 0" "capacityRetryCount c < 3" for c rs t tr
  proof -
    have idx: "endpointIndex c < length (ANTIGRAVITY_ENDPOINT_FALLBACKS (imported scripted_env))"
      using c by (simp add: scripted_endpoints)
    from capacity_retry [OF idx scripted_message_fetch [OF c(1)] capacity_facts(1,2)
        capacity_facts(3) [symmetric] w, of the_account] c(2)
    show ?thesis
      by (simp add: MAX_CAPACITY_RETRIES_def scripted_at_sleep)
  qed
  have s0: "?loop initial_ctx
      (scripted_at [capacity_response, capacity_response, capacity_response, ok_response]
        1700000000000 first_account_events)
    = ?loop (initial_ctx\<lparr>capacityRetryCount := 1\<rparr>)
        (scripted_at [capacity_response, capacity_response, ok_response] 1700000002000
           (first_account_events @ [post_daily, Sleep 2000]))"
    using step [of initial_ctx] by (simp add: initial_ctx_def)
  have s1: "?loop (initial_ctx\<lparr>capacityRetryCount := 1\<rparr>)
        (scripted_at [capacity_response, capacity_response, ok_response] 1700000002000
           (first_account_events @ [post_daily, Sleep 2000]))
    = ?loop (initial_ctx\<lparr>capacityRetryCount := 2\<rparr>)
        (scripted_at [capacity_response, ok_response] 1700000004000
           (first_account_events @ [post_daily, Sleep 2000, post_daily, Sleep 2000]))"
    using step [of "initial_ctx\<lparr>capacityRetryCount := 1\<rparr>"]
    by (simp add: initial_ctx_def numeral_2_eq_2)
  have s2: "?loop (initial_ctx\<lparr>capacityRetryCount := 2\<rparr>)
        (scripted_at [capacity_response, ok_response] 1700000004000
           (first_account_events @ [post_daily, Sleep 2000, post_daily, Sleep 2000]))
    = ?loop (initial_ctx\<lparr>capacityRetryCount := 3\<rparr>)
        (scripted_at [ok_response] 1700000006000
           (first_account_events @
            [post_daily, Sleep 2000, post_daily, Sleep 2000, post_daily, Sleep 2000]))"
    using step [of "initial_ctx\<lparr>capacityRetryCount := 2\<rparr>"]
    by (simp add: initial_ctx_def numeral_2_eq_2 numeral_3_eq_3)
  have idx0: "endpointIndex (initial_ctx\<lparr>capacityRetryCount := 3\<rparr>) = 0"
    by (simp add: initial_ctx_def)
  have all: "?loop initial_ctx
      (scripted_at [capacity_response, capacity_response, capacity_response, ok_response]
        1700000000000 first_account_events)
    = (Returned ''hello'',
      scripted_at [] 1700000006000
        (first_account_events @
         [post_daily, Sleep 2000, post_daily, Sleep 2000, post_daily, Sleep 2000,
          post_daily, NotifySuccess ''user@example.com'' ''big'']))"
    using s0 s1 s2 scripted_success [OF idx0] by simp
  have run: "sendMessage scripted_env scripted_request False
     (scripted_state [capacity_response, capacity_response, capacity_response, ok_response])
   = (Inr ''hello'',
      scripted_at [] 1700000006000
        (first_account_events @
         [post_daily, Sleep 2000, post_daily, Sleep 2000, post_daily, Sleep 2000,
          post_daily, NotifySuccess ''user@example.com'' ''big'']))"
    by (rule scripted_sendMessage_first_account) (use all in \<open>simp add: first_account_events_def\<close>)
  show ?thesis
    using s0 s1 s2 idx0 run by simp
qed

text \<open>
  Claim C6 as stated fails where the reset time parses to \<open>0\<close>: it is known, yet the
  dispatcher sleeps \<open>CAPACITY_RETRY_DELAY_MS\<close>, not 0 ms.
\<close>

theorem capacity_retry_zero_reset:
  "status capacity_zero_response = 429 \<and>
   isModelCapacityExhausted (body capacity_zero_response) \<and>
   capacityRetryCount initial_ctx < MAX_CAPACITY_RETRIES \<and>
   parseResetTime (imported scripted_env) capacity_zero_response (body capacity_zero_response)
     = Some 0 \<and>
   message_endpointAttempt scripted_env scripted_request the_account ''token'' ''{}'' initial_ctx
       (scripted_state [capacity_zero_response])
     = (Again (initial_ctx\<lparr>capacityRetryCount := 1\<rparr>),
        scripted_at [] 1700000002000 [post_daily, Sleep 2000]) \<and>
   Sleep 0 \<notin> set [post_daily, Sleep 2000]"
proof -
  have "message_endpointAttempt scripted_env scripted_request the_account ''token'' ''{}'' initial_ctx
       (scripted_state [capacity_zero_response])
     = (Again (initial_ctx\<lparr>capacityRetryCount := 1\<rparr>),
        scripted_at [] 1700000002000 [post_daily, Sleep 2000])"
    by (simp add: message_endpointAttempt_def scripted_state_at scripted_message_fetch
        initial_ctx_sel message_onResponse_def on429_def capacity_facts status_429_not_ok
        scripted_values MAX_CAPACITY_RETRIES_def CAPACITY_RETRY_DELAY_MS_def js_or_def
        truthy_num_def scripted_at_sleep Let_def)
  then show ?thesis
    by (simp add: capacity_facts initial_ctx_sel MAX_CAPACITY_RETRIES_def post_daily_def)
qed

section \<open>Properties of the all-rate-limited branch\<close>

text \<open>
  Claim C5.  Whenever the outer loop of a dispatcher finds no available account for the
  model and the manager reports all accounts rate-limited: if the minimum remaining wait
  exceeds \<open>MAX_WAIT_BEFORE_ERROR_MS\<close> (120000 ms), fallback is enabled and a fallback
  model is mapped, the dispatch ends in the tail call of the dispatcher on the request
  with the substituted model and \<open>fallbackEnabled = false\<close> (which cannot tail-call
  again); if the wait exceeds 120000 ms and no fallback applies, it fails with the
  \<open>RESOURCE_EXHAUSTED\<close> error naming the model, the wait duration and the absolute
  reset time; if the wait is at most 120000 ms, it sleeps the wait plus 500 ms, clears
  expired limits and goes on with the next iteration of the outer loop.  The outer loop
  is the same for both dispatchers (\<open>tryAccount\<close> is arbitrary).
\<close>

theorem all_rate_limited_decision:
  assumes w1: "w1 = am_clearExpiredLimits (manager env) (world s)"
    and avail: "am_getAvailableAccounts (manager env) (model req) w1 = []"
    and allrl: "am_isAllRateLimited (manager env) (model req) w1"
    and mw: "minWaitMs = am_getMinWaitTimeMs (manager env) (model req) w1"
    and s2: "s2 = s\<lparr>world := w1,
                    trace := trace s @ [ClearExpiredLimits, GetAvailableAccounts (model req),
                                        IsAllRateLimited (model req), GetMinWaitTimeMs (model req)]\<rparr>"
    and s3: "s3 = s2\<lparr>world := am_clearExpiredLimits (manager env)
                              (rt_setTimeout (runtime env) (minWaitMs + 500) w1),
                     trace := trace s2 @ [GetAccountCount, Sleep (minWaitMs + 500),
                                          ClearExpiredLimits]\<rparr>"
    and fbm: "fallbackModel = getFallbackModel (imported env) (model req)"
    and err: "exhausted = new_Error (''RESOURCE_EXHAUSTED: Rate limited on '' @ model req
                 @ ''. Quota will reset after '' @ formatDuration minWaitMs
                 @ ''. Next available: ''
                 @ toISOString (imported env) (rt_now (runtime env) w1 + minWaitMs))"
    and att: "attempt < maxAttempts"
  shows
    "MAX_WAIT_BEFORE_ERROR_MS = 120000 \<and>
     (minWaitMs > MAX_WAIT_BEFORE_ERROR_MS \<and> fallbackEnabled \<and> truthy_str fallbackModel \<longrightarrow>
        outerAttempt tryAccount env req fallbackEnabled s
          = (Recurse (req\<lparr>model := the fallbackModel\<rparr>), s2) \<and>
        outerLoop tryAccount env req fallbackEnabled maxAttempts attempt s
          = (TailCall (req\<lparr>model := the fallbackModel\<rparr>), s2)) \<and>
     (minWaitMs > MAX_WAIT_BEFORE_ERROR_MS \<and> \<not> (fallbackEnabled \<and> truthy_str fallbackModel) \<longrightarrow>
        outerAttempt tryAccount env req fallbackEnabled s = (Throw exhausted, s2) \<and>
        outerLoop tryAccount env req fallbackEnabled maxAttempts attempt s
          = (Done (Inl exhausted), s2)) \<and>
     (minWaitMs \<le> MAX_WAIT_BEFORE_ERROR_MS \<longrightarrow>
        outerAttempt tryAccount env req fallbackEnabled s = (Continue, s3) \<and>
        outerLoop tryAccount env req fallbackEnabled maxAttempts attempt s
          = outerLoop tryAccount env req fallbackEnabled maxAttempts (attempt + 1) s3) \<and>
     (\<forall>si q s'. outerLoop message_tryAccount env req fallbackEnabled
                    (max MAX_RETRIES (fst (getAccountCount env si) + 1)) 0
                    (snd (getAccountCount env si)) = (TailCall q, s') \<longrightarrow>
                 sendMessage env req fallbackEnabled si = sendMessage env q False s') \<and>
     (\<forall>si q s'. outerLoop stream_tryAccount env req fallbackEnabled
                    (max MAX_RETRIES (fst (getAccountCount env si) + 1)) 0
                    (snd (getAccountCount env si)) = (TailCall q, s') \<longrightarrow>
                 sendMessageStream env req fallbackEnabled si = sendMessageStream env q False s') \<and>
     (\<forall>q n k sa q' s'. outerLoop tryAccount env q False n k sa \<noteq> (TailCall q', s'))"
proof -
  have pre: "outerAttempt tryAccount env req fb s
      = onNoAccounts env req fb
          (s\<lparr>world := w1, trace := trace s @ [ClearExpiredLimits, GetAvailableAccounts (model req)]\<rparr>)"
    for fb
    using avail w1
    by (simp add: outerAttempt_def clearExpiredLimits_def getAvailableAccounts_def via_def
        log_event_def Let_def)
  have a1: "outerAttempt tryAccount env req fallbackEnabled s
          = (Recurse (req\<lparr>model := the fallbackModel\<rparr>), s2)"
    if "minWaitMs > MAX_WAIT_BEFORE_ERROR_MS" "fallbackEnabled" "truthy_str fallbackModel"
    using that allrl mw s2 fbm
    by (simp add: pre onNoAccounts_def isAllRateLimited_def getMinWaitTimeMs_def log_event_def
        Let_def)
  have a2: "outerAttempt tryAccount env req fallbackEnabled s = (Throw exhausted, s2)"
    if "minWaitMs > MAX_WAIT_BEFORE_ERROR_MS" "\<not> (fallbackEnabled \<and> truthy_str fallbackModel)"
    using that allrl mw s2 fbm err
    by (auto simp: pre onNoAccounts_def isAllRateLimited_def getMinWaitTimeMs_def log_event_def
        resourceExhaustedError_def Date_now_def Let_def)
  have a3: "outerAttempt tryAccount env req fallbackEnabled s = (Continue, s3)"
    if "minWaitMs \<le> MAX_WAIT_BEFORE_ERROR_MS"
    using that allrl mw s2 s3
    by (simp add: pre onNoAccounts_def isAllRateLimited_def getMinWaitTimeMs_def log_event_def
        getAccountCount_def sleep_def via_def clearExpiredLimits_def Let_def)
  have l1: "outerLoop tryAccount env req fallbackEnabled maxAttempts attempt s = (TailCall q, s')"
    if "outerAttempt tryAccount env req fallbackEnabled s = (Recurse q, s')" for q s'
    using that att by (subst outerLoop.simps) simp
  have l2: "outerLoop tryAccount env req fallbackEnabled maxAttempts attempt s = (Done (Inl e), s')"
    if "outerAttempt tryAccount env req fallbackEnabled s = (Throw e, s')" for e s'
    using that att by (subst outerLoop.simps) simp
  have l3: "outerLoop tryAccount env req fallbackEnabled maxAttempts attempt s
      = outerLoop tryAccount env req fallbackEnabled maxAttempts (attempt + 1) s'"
    if "outerAttempt tryAccount env req fallbackEnabled s = (Continue, s')" for s'
    using that att by (subst outerLoop.simps) simp
  have d1: "sendMessage env req fallbackEnabled si = sendMessage env q False s'"
    if "outerLoop message_tryAccount env req fallbackEnabled
          (max MAX_RETRIES (fst (getAccountCount env si) + 1)) 0
          (snd (getAccountCount env si)) = (TailCall q, s')" for si q s'
    using that by (subst sendMessage.simps) (auto simp: Let_def split: prod.splits)
  have d2: "sendMessageStream env req fallbackEnabled si = sendMessageStream env q False s'"
    if "outerLoop stream_tryAccount env req fallbackEnabled
          (max MAX_RETRIES (fst (getAccountCount env si) + 1)) 0
          (snd (getAccountCount env si)) = (TailCall q, s')" for si q s'
    using that by (subst sendMessageStream.simps) (auto simp: Let_def split: prod.splits)
  have once: "outerLoop tryAccount env q False n k sa \<noteq> (TailCall q', s')" for q n k sa q' s'
    by (rule outerLoop_no_TailCall)
  have main: "MAX_WAIT_BEFORE_ERROR_MS = 120000 \<and>
     (minWaitMs > MAX_WAIT_BEFORE_ERROR_MS \<and> fallbackEnabled \<and> truthy_str fallbackModel \<longrightarrow>
        outerAttempt tryAccount env req fallbackEnabled s
          = (Recurse (req\<lparr>model := the fallbackModel\<rparr>), s2) \<and>
        outerLoop tryAccount env req fallbackEnabled maxAttempts attempt s
          = (TailCall (req\<lparr>model := the fallbackModel\<rparr>), s2)) \<and>
     (minWaitMs > MAX_WAIT_BEFORE_ERROR_MS \<and> \<not> (fallbackEnabled \<and> truthy_str fallbackModel) \<longrightarrow>
        outerAttempt tryAccount env req fallbackEnabled s = (Throw exhausted, s2) \<and>
        outerLoop tryAccount env req fallbackEnabled maxAttempts attempt s
          = (Done (Inl exhausted), s2)) \<and>
     (minWaitMs \<le> MAX_WAIT_BEFORE_ERROR_MS \<longrightarrow>
        outerAttempt tryAccount env req fallbackEnabled s = (Continue, s3) \<and>
        outerLoop tryAccount env req fallbackEnabled maxAttempts attempt s
          = outerLoop tryAccount env req fallbackEnabled maxAttempts (attempt + 1) s3)"
    using a1 a2 a3 l1 l2 l3 by (auto simp: MAX_WAIT_BEFORE_ERROR_MS_def)
  show ?thesis
    using main d1 d2 once by blast
qed

lemma locked_facts:
  "am_clearExpiredLimits (manager (locked_env mw)) w = w"
  "am_getAvailableAccounts (manager (locked_env mw)) m w = []"
  "am_isAllRateLimited (manager (locked_env mw)) m w"
  "am_getMinWaitTimeMs (manager (locked_env mw)) m w = mw"
  "am_getAccountCount (manager (locked_env mw)) w = 1"
  "getFallbackModel (imported (locked_env mw)) m = (if m = ''big'' then Some ''small'' else None)"
  "toISOString (imported (locked_env mw)) t = int_str t"
  "rt_now (runtime (locked_env mw)) w = clock w"
  "rt_setTimeout (runtime (locked_env mw)) ms w = w\<lparr>clock := clock w + ms\<rparr>"
  by (simp_all add: locked_env_def scripted_env_def scripted_manager_def scripted_modules_def
      scripted_runtime_def)

text \<open>
  All accounts locked for 130 s with fallback enabled: the tail call on the fallback
  model, which then fails with \<open>RESOURCE_EXHAUSTED\<close>.  All accounts locked for 90 s:
  a sleep of 90500 ms and the next iteration.
\<close>

theorem all_rate_limited_decision_witness:
  "outerLoop message_tryAccount (locked_env 130000) scripted_request True 3 0
       (scripted_at [] 1700000000000 [GetAccountCount])
     = (TailCall (scripted_request\<lparr>model := ''small''\<rparr>),
        scripted_at [] 1700000000000 (GetAccountCount # locked_events ''big'')) \<and>
   outerLoop message_tryAccount (locked_env 130000) (scripted_request\<lparr>model := ''small''\<rparr>)
       False 3 0
       (scripted_at [] 1700000000000 (GetAccountCount # locked_events ''big'' @ [GetAccountCount]))
     = (Done (Inl (new_Error (''RESOURCE_EXHAUSTED: Rate limited on small. ''
                   @ ''Quota will reset after 2m10s. Next available: 1700000130000''))),
        scripted_at [] 1700000000000
          (GetAccountCount # locked_events ''big'' @ GetAccountCount # locked_events ''small'')) \<and>
   outerAttempt stream_tryAccount (locked_env 90000) scripted_request True
       (scripted_at [] 1700000000000 [GetAccountCount])
     = (Continue,
        scripted_at [] 1700000090500
          (GetAccountCount # locked_events ''big'' @ [GetAccountCount, Sleep 90500, ClearExpiredLimits]))"
proof -
  have fd: "formatDuration 130000 = ''2m10s''"
    by (simp add: formatDuration_def int_str_def nat_str.simps signed_modulo_int_def Let_def)
  have iso: "int_str 1700000130000 = ''1700000130000''"
    by (simp add: int_str_def nat_str.simps)
  have att: "(0 :: nat) < 3" by simp
  note T1 = all_rate_limited_decision [where env = "locked_env 130000" and req = scripted_request
      and s = "scripted_at [] 1700000000000 [GetAccountCount]" and fallbackEnabled = True
      and tryAccount = message_tryAccount, OF refl _ _ refl refl refl refl refl att]
  note T2 = all_rate_limited_decision [where env = "locked_env 130000"
      and req = "scripted_request\<lparr>model := ''small''\<rparr>"
      and s = "scripted_at [] 1700000000000 (GetAccountCount # locked_events ''big'' @ [GetAccountCount])"
      and fallbackEnabled = False
      and tryAccount = message_tryAccount, OF refl _ _ refl refl refl refl refl att]
  note T3 = all_rate_limited_decision [where env = "locked_env 90000" and req = scripted_request
      and s = "scripted_at [] 1700000000000 [GetAccountCount]" and fallbackEnabled = True
      and tryAccount = stream_tryAccount, OF refl _ _ refl refl refl refl refl att]
  have c1: "outerLoop message_tryAccount (locked_env 130000) scripted_request True 3 0
       (scripted_at [] 1700000000000 [GetAccountCount])
     = (TailCall (scripted_request\<lparr>model := ''small''\<rparr>),
        scripted_at [] 1700000000000 (GetAccountCount # locked_events ''big''))"
    using T1
    by (simp add: locked_facts scripted_values MAX_WAIT_BEFORE_ERROR_MS_def truthy_str_def
        scripted_at_def locked_events_def)
  have c2: "outerLoop message_tryAccount (locked_env 130000) (scripted_request\<lparr>model := ''small''\<rparr>)
       False 3 0
       (scripted_at [] 1700000000000 (GetAccountCount # locked_events ''big'' @ [GetAccountCount]))
     = (Done (Inl (new_Error (''RESOURCE_EXHAUSTED: Rate limited on small. ''
                   @ ''Quota will reset after 2m10s. Next available: 1700000130000''))),
        scripted_at [] 1700000000000
          (GetAccountCount # locked_events ''big'' @ GetAccountCount # locked_events ''small''))"
    using T2
    by (simp add: locked_facts scripted_values MAX_WAIT_BEFORE_ERROR_MS_def truthy_str_def
        scripted_at_def locked_events_def fd iso)
  have c3: "outerAttempt stream_tryAccount (locked_env 90000) scripted_request True
       (scripted_at [] 1700000000000 [GetAccountCount])
     = (Continue,
        scripted_at [] 1700000090500
          (GetAccountCount # locked_events ''big'' @ [GetAccountCount, Sleep 90500, ClearExpiredLimits]))"
    using T3
    by (simp add: locked_facts scripted_values MAX_WAIT_BEFORE_ERROR_MS_def truthy_str_def
        scripted_at_def locked_events_def)
  show ?thesis using c1 c2 c3 by simp
qed

section \<open>Properties of the empty-response recovery\<close>





lemma yield_all_frame [simp]:
  "trace (yield_all evs s) = trace s"
  "world (yield_all evs s) = world s"
  "lastRateLimitTimestamps (yield_all evs s) = lastRateLimitTimestamps s"
  "emitted (yield_all evs s) = emitted s @ evs"
  by (simp_all add: yield_all_def)

lemma sleep_frame [simp]:
  "trace (sleep env ms s) = trace s @ [Sleep ms]"
  "emitted (sleep env ms s) = emitted s"
  "world (sleep env ms s) = rt_setTimeout (runtime env) ms (world s)"
  by (simp_all add: sleep_def via_def log_event_def)






lemma empty_env_parts:
  "manager empty_env = scripted_manager" "imported empty_env = scripted_modules"
  "rt_fetch (runtime empty_env) url init w = (Inr empty_body_response, w)"
  "rt_setTimeout (runtime empty_env) ms w = w\<lparr>clock := clock w + ms\<rparr>"
  "rt_randomByte (runtime empty_env) w i = of_nat (17 * i + 3)"
  by (simp_all add: empty_env_def scripted_env_def scripted_runtime_def)

lemma empty_env_stream:
  "x_streamSSEResponse (imported empty_env) empty_body_response m = ([], Some empty_response_error)"
  "isEmptyResponseError (imported empty_env) empty_response_error"
  "ok empty_body_response"
  by (simp_all add: empty_env_parts scripted_modules_def empty_body_response_def
      http_response_def empty_response_error_def ok_def)


lemma empty_env_calls:
  "fetch empty_env url init (scripted_at rs t tr)
     = (Inr empty_body_response, scripted_at rs t (tr @ [Fetch url init]))"
  "sleep empty_env ms (scripted_at rs t tr) = scripted_at rs (t + ms) (tr @ [Sleep ms])"
  "getAccountCount empty_env (scripted_at rs t tr) = (1, scripted_at rs t (tr @ [GetAccountCount]))"
  "clearExpiredLimits empty_env (scripted_at rs t tr) = scripted_at rs t (tr @ [ClearExpiredLimits])"
  "getAvailableAccounts empty_env m (scripted_at rs t tr)
     = ([the_account], scripted_at rs t (tr @ [GetAvailableAccounts m]))"
  "selectAccount_call empty_env m (scripted_at rs t tr)
     = ((Some the_account, 0), scripted_at rs t (tr @ [SelectAccount m]))"
  "getTokenForAccount empty_env a (scripted_at rs t tr)
     = (Inr ''token'', scripted_at rs t (tr @ [GetTokenForAccount (email a)]))"
  "getProjectForAccount empty_env a token (scripted_at rs t tr)
     = (Inr ''project'', scripted_at rs t (tr @ [GetProjectForAccount (email a)]))"
  by (simp_all add: fetch_def sleep_def getAccountCount_def clearExpiredLimits_def
      getAvailableAccounts_def selectAccount_call_def getTokenForAccount_def
      getProjectForAccount_def via_def log_event_def scripted_at_def empty_env_parts
      scripted_manager_def)

lemma empty_env_fallback_stream:
  "emitEmptyResponseFallback empty_env ''big'' s = scripted_fallback_stream"
  by (simp add: emitEmptyResponseFallback_def scripted_fallback_stream_def toString_hex_def
      randomBytes_def empty_env_parts hex_byte_def hex_digit_def upt_rec Let_def)

lemma empty_env_loop:
  "stream_emptyRetryLoop empty_env scripted_request the_account url init c 0 empty_body_response
     (scripted_at [] t tr)
   = (Ret (), yield_all scripted_fallback_stream
        (scripted_at [] (t + 3500)
           (tr @ [Sleep 500, Fetch url init, Sleep 1000, Fetch url init, Sleep 2000, Fetch url init])))"
  apply (subst stream_emptyRetryLoop.simps)
  apply (simp add: empty_env_stream empty_env_calls stream_onRetryResponse_def
      MAX_EMPTY_RESPONSE_RETRIES_def scripted_values Let_def yield_all_def [of "[]"])
  apply (subst stream_emptyRetryLoop.simps)
  apply (simp add: empty_env_stream empty_env_calls stream_onRetryResponse_def
      MAX_EMPTY_RESPONSE_RETRIES_def scripted_values Let_def yield_all_def [of "[]"])
  apply (subst stream_emptyRetryLoop.simps)
  apply (simp add: empty_env_stream empty_env_calls stream_onRetryResponse_def
      MAX_EMPTY_RESPONSE_RETRIES_def scripted_values Let_def yield_all_def [of "[]"])
  apply (subst stream_emptyRetryLoop.simps)
  apply (simp add: empty_env_stream empty_env_calls stream_onRetryResponse_def
      MAX_EMPTY_RESPONSE_RETRIES_def scripted_values Let_def yield_all_def [of "[]"]
      empty_env_fallback_stream)
  apply (simp add: add.commute)
  done


lemma empty_env_imported:
  "ANTIGRAVITY_ENDPOINT_FALLBACKS (imported empty_env) = [''https://daily.example'', ''https://prod.example'']"
  "x_requestBody (imported empty_env) req project = ''{}''"
  "buildHeaders (imported empty_env) token m accept
     = [(''Authorization'', ''Bearer '' @ token), (''Accept'', accept)]"
  by (simp_all add: empty_env_parts scripted_modules_def)

lemma empty_env_run:
  "sendMessageStream empty_env scripted_request False (scripted_state [])
   = (Inr (),
      yield_all scripted_fallback_stream
        (scripted_at [] 1700000003500
           (first_account_events @
            [post_daily_stream, Sleep 500, post_daily_stream, Sleep 1000, post_daily_stream,
             Sleep 2000, post_daily_stream])))"
  apply (subst sendMessageStream.simps)
  apply (simp add: scripted_state_at empty_env_calls MAX_RETRIES_def)
  apply (subst outerLoop.simps)
  apply (simp add: outerAttempt_def empty_env_calls scripted_values stream_tryAccount_def
      empty_env_imported Let_def)
  apply (subst stream_endpointLoop.simps)
  apply (simp add: initial_ctx_sel empty_env_imported stream_endpointAttempt_def
      stream_url_def stream_init_def empty_env_calls stream_onResponse_def empty_env_stream
      empty_env_loop scripted_values)
  apply (simp add: first_account_events_def post_daily_stream_def stream_post_def)
  done


section \<open>What the handlers add to the trace\<close>

lemma tallies_basic [simp]:
  "outer_iterations (log_event e s) = outer_iterations s + (if is_iteration_start e then 1 else 0)"
  "outer_iterations (via f e s) = outer_iterations s + (if is_iteration_start e then 1 else 0)"
  "outer_iterations (s\<lparr>world := w\<rparr>) = outer_iterations s"
  "outer_iterations (s\<lparr>emitted := em\<rparr>) = outer_iterations s"
  "outer_iterations (s\<lparr>lastRateLimitTimestamps := ts\<rparr>) = outer_iterations s"
  "signalled_fetches (log_event e s) = signalled_fetches s + (if carries_signal e then 1 else 0)"
  "signalled_fetches (via f e s) = signalled_fetches s + (if carries_signal e then 1 else 0)"
  "signalled_fetches (s\<lparr>world := w\<rparr>) = signalled_fetches s"
  "signalled_fetches (s\<lparr>emitted := em\<rparr>) = signalled_fetches s"
  "signalled_fetches (s\<lparr>lastRateLimitTimestamps := ts\<rparr>) = signalled_fetches s"
  by (simp_all add: outer_iterations_def signalled_fetches_def log_event_def via_def)

lemma quiet_calls [simp]:
  "quiet s (sleep env ms s)"
  "quiet s (snd (getAccountCount env s))"
  "quiet s (clearExpiredLimits env s)"
  "quiet s (snd (isAllRateLimited env mdl s))"
  "quiet s (snd (getMinWaitTimeMs env mdl s))"
  "quiet s (snd (selectAccount_call env mdl s))"
  "quiet s (snd (getTokenForAccount env a s))"
  "quiet s (snd (getProjectForAccount env a token s))"
  "quiet s (markInvalid env em reason s)"
  "quiet s (clearTokenCache env em s)"
  "quiet s (clearProjectCache env em s)"
  "quiet s (markRateLimited env em ms' mdl s)"
  "quiet s (notifySuccess env a mdl s)"
  "quiet s (notifyRateLimit env a mdl s)"
  "quiet s (notifyFailure env a mdl s)"
  "quiet s (snd (getConsecutiveFailures env em s))"
  "quiet s (recordRateLimitTimestamp h env mdl s)"
  "quiet s (clearRateLimitTimestamp h mdl s)"
  "quiet s (yield_all evs s)"
  by (simp_all add: sleep_def getAccountCount_def clearExpiredLimits_def
      isAllRateLimited_def getMinWaitTimeMs_def selectAccount_call_def
      getTokenForAccount_def getProjectForAccount_def markInvalid_def clearTokenCache_def
      clearProjectCache_def markRateLimited_def notifySuccess_def notifyRateLimit_def
      notifyFailure_def getConsecutiveFailures_def recordRateLimitTimestamp_def
      clearRateLimitTimestamp_def yield_all_def split: prod.splits)

lemma tallies_getAvailableAccounts [simp]:
  "outer_iterations (snd (getAvailableAccounts env mdl s)) = outer_iterations s + 1"
  "signalled_fetches (snd (getAvailableAccounts env mdl s)) = signalled_fetches s"
  by (simp_all add: getAvailableAccounts_def)

lemma quiet_fetch:
  "fetch env url init s = (r, s1) \<Longrightarrow> signal init = None \<Longrightarrow> quiet s s1"
  by (auto simp: fetch_def split: prod.splits)

lemma init_without_signal [simp]:
  "signal (message_init env req token payload) = None"
  "signal (stream_init env req token payload) = None"
  by (simp_all add: message_init_def stream_init_def)

lemma quiet_on401: "quiet s (snd (on401 env a errText c s))"
  by (simp add: on401_def)

lemma quiet_on429: "quiet s (snd (on429 h env a mdl resp errText c s))"
  by (simp add: on429_def on429_rateLimit_def Let_def)

subsection \<open>The message handler\<close>

lemma quiet_message_success: "quiet s (snd (message_success env req a resp s))"
  by (simp add: message_success_def Let_def split: sum.splits)

lemma quiet_message_onResponse: "quiet s (snd (message_onResponse env req a resp c s))"
  by (simp add: message_onResponse_def quiet_on401 quiet_on429 quiet_message_success Let_def)

lemma quiet_message_endpointAttempt:
  "quiet s (snd (message_endpointAttempt env req a token payload c s))"
proof -
  obtain r s1 where f: "fetch env (message_url env req c) (message_init env req token payload) s
      = (r, s1)"
    by (cases "fetch env (message_url env req c) (message_init env req token payload) s") auto
  show ?thesis
    using quiet_fetch [OF f] quiet_message_onResponse [of env req a _ c s1]
    by (cases r) (simp_all add: message_endpointAttempt_def f)
qed

lemma quiet_message_endpointLoop:
  "quiet s (snd (message_endpointLoop env req a token payload c s))"
proof (induction env req a token payload c s rule: message_endpointLoop.induct)
  case (1 env req a token payload c s)
  show ?case
  proof (cases "endpointIndex c < length (ANTIGRAVITY_ENDPOINT_FALLBACKS (imported env))")
    case False
    then show ?thesis
      by (subst (1 2) message_endpointLoop.simps) (simp split: option.splits)
  next
    case True
    obtain x s' where att: "message_endpointAttempt env req a token payload c s = (x, s')"
      by (cases "message_endpointAttempt env req a token payload c s") auto
    have s': "quiet s s'"
      using quiet_message_endpointAttempt [of env req a token payload c s] att by simp
    show ?thesis
    proof (cases x)
      case (Ret r)
      with True att s' show ?thesis by (subst (1 2) message_endpointLoop.simps) simp
    next
      case (Raise e)
      show ?thesis
      proof (cases "isRateLimitError (imported env) e")
        case True
        with \<open>endpointIndex c < _\<close> att s' Raise show ?thesis
          by (subst (1 2) message_endpointLoop.simps) simp
      next
        case False
        from "1.IH"(1) [OF True att [symmetric] Raise False]
        show ?thesis
          using True att s' Raise False by (subst (1 2) message_endpointLoop.simps) simp
      qed
    next
      case (Again c')
      from "1.IH"(2) [OF True att [symmetric] Again]
      show ?thesis
        using True att s' Again by (subst (1 2) message_endpointLoop.simps) simp
    qed
  qed
qed

lemma quiet_message_tryAccount: "quiet s (snd (message_tryAccount env req a s))"
proof -
  obtain r1 s1 where t: "getTokenForAccount env a s = (r1, s1)"
    by (cases "getTokenForAccount env a s") auto
  have i1: "quiet s s1"
    using quiet_calls(7) [of env a s] t by simp
  show ?thesis
  proof (cases r1)
    case (Inl e)
    with t i1 show ?thesis by (simp add: message_tryAccount_def)
  next
    case (Inr token)
    obtain r2 s2 where p: "getProjectForAccount env a token s1 = (r2, s2)"
      by (cases "getProjectForAccount env a token s1") auto
    have i2: "quiet s1 s2"
      using quiet_calls(8) [of env a token s1] p by simp
    show ?thesis
      using t Inr p i1 i2 quiet_message_endpointLoop [of env req a token _ initial_ctx s2]
      by (cases r2) (simp_all add: message_tryAccount_def Let_def)
  qed
qed

subsection \<open>The streaming handler\<close>

lemma quiet_stream_onRetryResponse:
  assumes "signal init = None"
  shows "quiet s (snd (stream_onRetryResponse env req a url init resp s))"
proof -
  obtain r s2 where f: "fetch env url init (sleep env 1000 s) = (r, s2)"
    by (cases "fetch env url init (sleep env 1000 s)") auto
  have "quiet s s2"
    using quiet_fetch [OF f assms] by simp
  then show ?thesis
    by (simp add: stream_onRetryResponse_def Let_def f split: sum.splits)
qed

lemma quiet_stream_emptyRetryLoop:
  "signal init = None \<Longrightarrow>
   quiet s (snd (stream_emptyRetryLoop env req a url init c emptyRetries currentResponse s))"
proof (induction env req a url init c emptyRetries currentResponse s
    rule: stream_emptyRetryLoop.induct)
  case (1 env req a url init c emptyRetries currentResponse s)
  show ?case
  proof (cases "emptyRetries \<le> MAX_EMPTY_RESPONSE_RETRIES")
    case False
    then show ?thesis by (subst (1 2) stream_emptyRetryLoop.simps) simp
  next
    case le: True
    obtain evs ended where x:
      "x_streamSSEResponse (imported env) currentResponse (model req) = (evs, ended)"
      by (cases "x_streamSSEResponse (imported env) currentResponse (model req)") auto
    show ?thesis
    proof (cases ended)
      case None
      with x le show ?thesis
        by (subst (1 2) stream_emptyRetryLoop.simps) (simp add: Let_def)
    next
      case (Some streamError)
      show ?thesis
      proof (cases "isEmptyResponseError (imported env) streamError \<and>
                    emptyRetries < MAX_EMPTY_RESPONSE_RETRIES")
        case False
        with x Some le show ?thesis
          by (subst (1 2) stream_emptyRetryLoop.simps) (auto simp: Let_def)
      next
        case True
        obtain fr s3 where f:
          "fetch env url init (sleep env (500 * 2 ^ emptyRetries) (yield_all evs s)) = (fr, s3)"
          by (cases "fetch env url init (sleep env (500 * 2 ^ emptyRetries) (yield_all evs s))") auto
        have i3: "quiet s s3"
          using quiet_fetch [OF f "1.prems"] by simp
        show ?thesis
        proof (cases fr)
          case (Inl e)
          with x Some True f le i3 show ?thesis
            by (subst (1 2) stream_emptyRetryLoop.simps) (simp add: Let_def)
        next
          case (Inr resp)
          obtain rr s4 where r: "stream_onRetryResponse env req a url init resp s3 = (rr, s4)"
            by (cases "stream_onRetryResponse env req a url init resp s3") auto
          have i4: "quiet s s4"
            using quiet_stream_onRetryResponse [OF "1.prems", of env req a url resp s3] r i3
            by simp
          show ?thesis
          proof (cases rr)
            case (Inl e)
            with x Some True f Inr r le i4 show ?thesis
              by (subst (1 2) stream_emptyRetryLoop.simps) (simp add: Let_def)
          next
            case inr: (Inr next_response)
            have ih: "quiet s4 (snd (stream_emptyRetryLoop env req a url init c
                (emptyRetries + 1) next_response s4))"
            proof -
              have nn: "\<not> \<not> isEmptyResponseError (imported env) streamError" using True by simp
              have nmax: "\<not> MAX_EMPTY_RESPONSE_RETRIES \<le> emptyRetries" using True by simp
              show ?thesis
                by (rule "1.IH" [OF le refl refl x [symmetric] refl Some nn nmax refl
                      f [symmetric] Inr r [symmetric] inr "1.prems"])
            qed
            with x Some True f Inr r inr le i4 show ?thesis
              by (subst (1 2) stream_emptyRetryLoop.simps) (simp add: Let_def)
          qed
        qed
      qed
    qed
  qed
qed

lemma quiet_stream_onResponse:
  "quiet s (snd (stream_onResponse env req a token payload resp c s))"
  by (simp add: stream_onResponse_def quiet_on401 quiet_on429
      quiet_stream_emptyRetryLoop Let_def)

lemma quiet_stream_endpointAttempt:
  "quiet s (snd (stream_endpointAttempt env req a token payload c s))"
proof -
  obtain r s1 where f: "fetch env (stream_url env c) (stream_init env req token payload) s
      = (r, s1)"
    by (cases "fetch env (stream_url env c) (stream_init env req token payload) s") auto
  show ?thesis
    using quiet_fetch [OF f] quiet_stream_onResponse [of env req a token payload _ c s1]
    by (cases r) (simp_all add: stream_endpointAttempt_def f)
qed

lemma quiet_stream_endpointLoop:
  "quiet s (snd (stream_endpointLoop env req a token payload c s))"
proof (induction env req a token payload c s rule: stream_endpointLoop.induct)
  case (1 env req a token payload c s)
  show ?case
  proof (cases "endpointIndex c < length (ANTIGRAVITY_ENDPOINT_FALLBACKS (imported env))")
    case False
    then show ?thesis
      by (subst (1 2) stream_endpointLoop.simps) (simp split: option.splits)
  next
    case True
    obtain x s' where att: "stream_endpointAttempt env req a token payload c s = (x, s')"
      by (cases "stream_endpointAttempt env req a token payload c s") auto
    have s': "quiet s s'"
      using quiet_stream_endpointAttempt [of env req a token payload c s] att by simp
    show ?thesis
    proof (cases x)
      case (Ret r)
      with True att s' show ?thesis by (subst (1 2) stream_endpointLoop.simps) simp
    next
      case (Raise e)
      show ?thesis
      proof (cases "isRateLimitError (imported env) e \<or> isEmptyResponseError (imported env) e")
        case stop: True
        with True att s' Raise show ?thesis
          by (subst (1 2) stream_endpointLoop.simps) auto
      next
        case False
        then have n1: "\<not> isRateLimitError (imported env) e"
          and n2: "\<not> isEmptyResponseError (imported env) e" by simp_all
        from "1.IH"(1) [OF True att [symmetric] Raise n1 n2]
        show ?thesis
          using True att s' Raise n1 n2 by (subst (1 2) stream_endpointLoop.simps) simp
      qed
    next
      case (Again c')
      from "1.IH"(2) [OF True att [symmetric] Again]
      show ?thesis
        using True att s' Again by (subst (1 2) stream_endpointLoop.simps) simp
    qed
  qed
qed

lemma quiet_stream_tryAccount: "quiet s (snd (stream_tryAccount env req a s))"
proof -
  obtain r1 s1 where t: "getTokenForAccount env a s = (r1, s1)"
    by (cases "getTokenForAccount env a s") auto
  have i1: "quiet s s1"
    using quiet_calls(7) [of env a s] t by simp
  show ?thesis
  proof (cases r1)
    case (Inl e)
    with t i1 show ?thesis by (simp add: stream_tryAccount_def)
  next
    case (Inr token)
    obtain r2 s2 where p: "getProjectForAccount env a token s1 = (r2, s2)"
      by (cases "getProjectForAccount env a token s1") auto
    have i2: "quiet s1 s2"
      using quiet_calls(8) [of env a token s1] p by simp
    show ?thesis
      using t Inr p i1 i2 quiet_stream_endpointLoop [of env req a token _ initial_ctx s2]
      by (cases r2) (simp_all add: stream_tryAccount_def Let_def)
  qed
qed

subsection \<open>The outer loop\<close>

lemma quiet_onNoAccounts:
  "quiet s (snd (onNoAccounts env req fb s :: 'r ctl \<times> 'w dstate))"
proof -
  obtain al s1 where a: "isAllRateLimited env (model req) s = (al, s1)"
    by (cases "isAllRateLimited env (model req) s") auto
  have i1: "quiet s s1"
    using quiet_calls(4) [of env "model req" s] a by simp
  obtain mw s2 where m: "getMinWaitTimeMs env (model req) s1 = (mw, s2)"
    by (cases "getMinWaitTimeMs env (model req) s1") auto
  have i2: "quiet s s2"
    using quiet_calls(5) [of env "model req" s1] m i1 by simp
  obtain ac s3 where c: "getAccountCount env s2 = (ac, s3)"
    by (cases "getAccountCount env s2") auto
  have i3: "quiet s s3"
    using quiet_calls(2) [of env s2] c i2 by simp
  show ?thesis
    by (simp add: onNoAccounts_def Let_def a m c i1 i2 i3)
qed

lemma quiet_consecutiveFailureCooldown:
  "quiet s (consecutiveFailureCooldown env a mdl s)"
proof -
  obtain cf s2 where c: "getConsecutiveFailures env (email a) (notifyFailure env a mdl s) = (cf, s2)"
    by (cases "getConsecutiveFailures env (email a) (notifyFailure env a mdl s)") auto
  have "quiet s s2"
    using quiet_calls(16) [of env "email a" "notifyFailure env a mdl s"] c by simp
  then show ?thesis
    by (simp add: consecutiveFailureCooldown_def Let_def c)
qed

lemma quiet_onAttemptError:
  "quiet s (snd (onAttemptError env req a error s :: 'r ctl \<times> 'w dstate))"
  by (simp add: onAttemptError_def Let_def quiet_consecutiveFailureCooldown)

lemma tallies_outerAttempt:
  fixes tryAccount :: "'w env \<Rightarrow> request \<Rightarrow> account \<Rightarrow> 'w dstate \<Rightarrow> 'r tried \<times> 'w dstate"
  assumes inner: "\<And>a s. quiet s (snd (tryAccount env req a s))"
  shows "outer_iterations (snd (outerAttempt tryAccount env req fb s)) = outer_iterations s + 1 \<and>
         signalled_fetches (snd (outerAttempt tryAccount env req fb s)) = signalled_fetches s"
proof -
  obtain av s2 where g: "getAvailableAccounts env (model req) (clearExpiredLimits env s) = (av, s2)"
    by (cases "getAvailableAccounts env (model req) (clearExpiredLimits env s)") auto
  have i2: "outer_iterations s2 = outer_iterations s + 1 \<and> signalled_fetches s2 = signalled_fetches s"
    using tallies_getAvailableAccounts [of env "model req" "clearExpiredLimits env s"] g by simp
  obtain sel w s3 where sc: "selectAccount_call env (model req) s2 = ((sel, w), s3)"
    by (cases "selectAccount_call env (model req) s2") auto
  have i3: "outer_iterations s3 = outer_iterations s + 1 \<and> signalled_fetches s3 = signalled_fetches s"
    using quiet_calls(6) [of env "model req" s2] sc i2 by simp
  show ?thesis
  proof (cases "length av = 0")
    case True
    then show ?thesis
      using quiet_onNoAccounts [of env req fb s2, where ?'r = 'r] i2
      by (simp add: outerAttempt_def Let_def g)
  next
    case False
    show ?thesis
    proof (cases sel)
      case None
      with False show ?thesis
        by (simp add: outerAttempt_def Let_def g sc i3)
    next
      case (Some a)
      obtain r s4 where t: "tryAccount env req a s3 = (r, s4)"
        by (cases "tryAccount env req a s3") auto
      have i4: "outer_iterations s4 = outer_iterations s + 1 \<and>
                signalled_fetches s4 = signalled_fetches s"
        using inner [of a s3] t i3 by simp
      show ?thesis
        using False Some t i4 quiet_onAttemptError [of env req a _ s4, where ?'r = 'r]
        by (cases r) (simp_all add: outerAttempt_def Let_def g sc)
    qed
  qed
qed

lemma tallies_outerLoop:
  assumes inner: "\<And>req a s. quiet s (snd (tryAccount env req a s))"
  shows "outer_iterations (snd (outerLoop tryAccount env req fb maxAttempts attempt s))
             \<le> outer_iterations s + (maxAttempts - attempt) \<and>
         signalled_fetches (snd (outerLoop tryAccount env req fb maxAttempts attempt s))
             = signalled_fetches s"
  using inner
proof (induction tryAccount env req fb maxAttempts attempt s rule: outerLoop.induct)
  case (1 tryAccount env req fb maxAttempts attempt s)
  show ?case
  proof (cases "attempt < maxAttempts")
    case False
    then show ?thesis
      by (subst (1 2) outerLoop.simps) (simp add: afterLoop_def Let_def)
  next
    case True
    obtain r s1 where o: "outerAttempt tryAccount env req fb s = (r, s1)"
      by (cases "outerAttempt tryAccount env req fb s") auto
    have i1: "outer_iterations s1 = outer_iterations s + 1 \<and>
              signalled_fetches s1 = signalled_fetches s"
      using tallies_outerAttempt [of tryAccount env req fb s] "1.prems" o by simp
    show ?thesis
    proof (cases r)
      case Continue
      note ih = "1.IH" [OF True o [symmetric] Continue "1.prems"]
      have b: "outer_iterations (snd (outerLoop tryAccount env req fb maxAttempts (attempt + 1) s1))
          \<le> outer_iterations s + (maxAttempts - attempt)"
        using ih i1 True by arith
      have c: "signalled_fetches (snd (outerLoop tryAccount env req fb maxAttempts (attempt + 1) s1))
          = signalled_fetches s"
        using ih i1 by simp
      show ?thesis
        using o Continue True b c by (subst (1 2) outerLoop.simps) simp
    qed (use True o i1 in \<open>subst (1 2) outerLoop.simps, simp\<close>)+
  qed
qed

section \<open>Bounded retries\<close>

lemma sendMessage_False_tallies:
  "outer_iterations (snd (sendMessage env req False s))
     \<le> outer_iterations s + max MAX_RETRIES (am_getAccountCount (manager env) (world s) + 1) \<and>
   signalled_fetches (snd (sendMessage env req False s)) = signalled_fetches s"
proof -
  let ?n = "max MAX_RETRIES (am_getAccountCount (manager env) (world s) + 1)"
  let ?s0 = "log_event GetAccountCount s"
  obtain r s' where o: "outerLoop message_tryAccount env req False ?n 0 ?s0 = (r, s')"
    by (cases "outerLoop message_tryAccount env req False ?n 0 ?s0") auto
  have t: "outer_iterations s' \<le> outer_iterations s + ?n \<and>
           signalled_fetches s' = signalled_fetches s"
    using tallies_outerLoop [of message_tryAccount env req False ?n 0 ?s0, OF quiet_message_tryAccount] o
    by simp
  show ?thesis
  proof (cases r)
    case (Done x)
    with o t show ?thesis
      by (subst (1 2) sendMessage.simps) (simp add: getAccountCount_def)
  next
    case (TailCall q)
    with o outerLoop_no_TailCall [of message_tryAccount env req ?n 0 ?s0 q s']
    show ?thesis by simp
  qed
qed

lemma sendMessage_tallies:
  assumes "\<forall>w. am_getAccountCount (manager env) w \<le> N"
  shows "outer_iterations (snd (sendMessage env req fb s))
           \<le> outer_iterations s + (if fb then 2 else 1) * max MAX_RETRIES (N + 1) \<and>
         signalled_fetches (snd (sendMessage env req fb s)) = signalled_fetches s"
proof -
  have le: "\<And>w. max MAX_RETRIES (am_getAccountCount (manager env) w + 1) \<le> max MAX_RETRIES (N + 1)"
    using assms by (simp add: max_def) (metis Suc_le_mono le_trans)
  let ?n = "max MAX_RETRIES (am_getAccountCount (manager env) (world s) + 1)"
  let ?s0 = "log_event GetAccountCount s"
  obtain r s' where o: "outerLoop message_tryAccount env req fb ?n 0 ?s0 = (r, s')"
    by (cases "outerLoop message_tryAccount env req fb ?n 0 ?s0") auto
  have t: "outer_iterations s' \<le> outer_iterations s + ?n \<and>
           signalled_fetches s' = signalled_fetches s"
    using tallies_outerLoop [of message_tryAccount env req fb ?n 0 ?s0, OF quiet_message_tryAccount] o
    by simp
  then have t1: "outer_iterations s' \<le> outer_iterations s + max MAX_RETRIES (N + 1)"
    using le [of "world s"] by arith
  show ?thesis
  proof (cases r)
    case (Done x)
    with o t t1 show ?thesis
      by (subst (1 2) sendMessage.simps) (simp add: getAccountCount_def)
  next
    case (TailCall q)
    have fb: fb
      using o TailCall outerLoop_no_TailCall [of message_tryAccount env req ?n 0 ?s0 q s']
      by (cases fb) auto
    have eq: "sendMessage env req fb s = sendMessage env q False s'"
      using o TailCall by (subst sendMessage.simps) (simp add: getAccountCount_def)
    have "outer_iterations (snd (sendMessage env q False s'))
        \<le> outer_iterations s' + max MAX_RETRIES (N + 1)"
      using sendMessage_False_tallies [of env q s'] le [of "world s'"] by arith
    then show ?thesis
      using eq fb t t1 sendMessage_False_tallies [of env q s'] by simp
  qed
qed

lemma sendMessageStream_False_tallies:
  "outer_iterations (snd (sendMessageStream env req False s))
     \<le> outer_iterations s + max MAX_RETRIES (am_getAccountCount (manager env) (world s) + 1) \<and>
   signalled_fetches (snd (sendMessageStream env req False s)) = signalled_fetches s"
proof -
  let ?n = "max MAX_RETRIES (am_getAccountCount (manager env) (world s) + 1)"
  let ?s0 = "log_event GetAccountCount s"
  obtain r s' where o: "outerLoop stream_tryAccount env req False ?n 0 ?s0 = (r, s')"
    by (cases "outerLoop stream_tryAccount env req False ?n 0 ?s0") auto
  have t: "outer_iterations s' \<le> outer_iterations s + ?n \<and>
           signalled_fetches s' = signalled_fetches s"
    using tallies_outerLoop [of stream_tryAccount env req False ?n 0 ?s0, OF quiet_stream_tryAccount] o
    by simp
  show ?thesis
  proof (cases r)
    case (Done x)
    with o t show ?thesis
      by (subst (1 2) sendMessageStream.simps) (simp add: getAccountCount_def)
  next
    case (TailCall q)
    with o outerLoop_no_TailCall [of stream_tryAccount env req ?n 0 ?s0 q s']
    show ?thesis by simp
  qed
qed

lemma sendMessageStream_tallies:
  assumes "\<forall>w. am_getAccountCount (manager env) w \<le> N"
  shows "outer_iterations (snd (sendMessageStream env req fb s))
           \<le> outer_iterations s + (if fb then 2 else 1) * max MAX_RETRIES (N + 1) \<and>
         signalled_fetches (snd (sendMessageStream env req fb s)) = signalled_fetches s"
proof -
  have le: "\<And>w. max MAX_RETRIES (am_getAccountCount (manager env) w + 1) \<le> max MAX_RETRIES (N + 1)"
    using assms by (simp add: max_def) (metis Suc_le_mono le_trans)
  let ?n = "max MAX_RETRIES (am_getAccountCount (manager env) (world s) + 1)"
  let ?s0 = "log_event GetAccountCount s"
  obtain r s' where o: "outerLoop stream_tryAccount env req fb ?n 0 ?s0 = (r, s')"
    by (cases "outerLoop stream_tryAccount env req fb ?n 0 ?s0") auto
  have t: "outer_iterations s' \<le> outer_iterations s + ?n \<and>
           signalled_fetches s' = signalled_fetches s"
    using tallies_outerLoop [of stream_tryAccount env req fb ?n 0 ?s0, OF quiet_stream_tryAccount] o
    by simp
  then have t1: "outer_iterations s' \<le> outer_iterations s + max MAX_RETRIES (N + 1)"
    using le [of "world s"] by arith
  show ?thesis
  proof (cases r)
    case (Done x)
    with o t t1 show ?thesis
      by (subst (1 2) sendMessageStream.simps) (simp add: getAccountCount_def)
  next
    case (TailCall q)
    have fb: fb
      using o TailCall outerLoop_no_TailCall [of stream_tryAccount env req ?n 0 ?s0 q s']
      by (cases fb) auto
    have eq: "sendMessageStream env req fb s = sendMessageStream env q False s'"
      using o TailCall by (subst sendMessageStream.simps) (simp add: getAccountCount_def)
    have "outer_iterations (snd (sendMessageStream env q False s'))
        \<le> outer_iterations s' + max MAX_RETRIES (N + 1)"
      using sendMessageStream_False_tallies [of env q s'] le [of "world s'"] by arith
    then show ?thesis
      using eq fb t t1 sendMessageStream_False_tallies [of env q s'] by simp
  qed
qed

lemma outerLoop_False_Done:
  "\<exists>r. fst (outerLoop tryAccount env req False maxAttempts attempt s) = Done r"
proof (cases "fst (outerLoop tryAccount env req False maxAttempts attempt s)")
  case (TailCall q)
  then show ?thesis
    using outerLoop_no_TailCall [of tryAccount env req maxAttempts attempt s q
        "snd (outerLoop tryAccount env req False maxAttempts attempt s)"]
    by (cases "outerLoop tryAccount env req False maxAttempts attempt s") simp
qed simp

lemma outerLoop_exhausted:
  "\<not> attempt < maxAttempts \<Longrightarrow>
   outerLoop tryAccount env req fb maxAttempts attempt s = afterLoop env req fb s"
  by (subst outerLoop.simps) simp


text \<open>
  Claim C2.  Both dispatchers are total functions of the model (every loop has its
  termination proof), provided each call to the account manager, \<open>fetch\<close> and timer
  returns.  The outer loop started at \<open>attempt\<close> runs at most
  \<open>maxAttempts - attempt\<close> iterations; with \<open>fallbackEnabled = false\<close> it ends with a
  returned value or a thrown error and never with the tail call, so the recursion into
  the fallback model happens at most once; a loop whose attempts are used up throws
  \<open>Max retries exceeded\<close> unless it makes that tail call.  A call with
  \<open>fallbackEnabled = false\<close> therefore runs at most
  \<open>max(MAX_RETRIES, accountCount + 1)\<close> iterations, and any call at most twice the
  largest such bound.
\<close>

theorem dispatch_bounded_iterations:
  fixes env :: "'w env"
  assumes "\<forall>w. am_getAccountCount (manager env) w \<le> N"
  shows
    "outer_iterations (snd (outerLoop message_tryAccount env req fb maxAttempts attempt s))
       \<le> outer_iterations s + (maxAttempts - attempt) \<and>
     outer_iterations (snd (outerLoop stream_tryAccount env req fb maxAttempts attempt s))
       \<le> outer_iterations s + (maxAttempts - attempt) \<and>
     (\<exists>r. fst (outerLoop message_tryAccount env req False maxAttempts attempt s) = Done r) \<and>
     (\<exists>r. fst (outerLoop stream_tryAccount env req False maxAttempts attempt s) = Done r) \<and>
     (\<not> attempt < maxAttempts \<longrightarrow>
        fst (outerLoop message_tryAccount env req False maxAttempts attempt s)
          = Done (Inl (new_Error ''Max retries exceeded'')) \<and>
        fst (outerLoop stream_tryAccount env req False maxAttempts attempt s)
          = Done (Inl (new_Error ''Max retries exceeded''))) \<and>
     outer_iterations (snd (sendMessage env req False s))
       \<le> outer_iterations s + max MAX_RETRIES (am_getAccountCount (manager env) (world s) + 1) \<and>
     outer_iterations (snd (sendMessageStream env req False s))
       \<le> outer_iterations s + max MAX_RETRIES (am_getAccountCount (manager env) (world s) + 1) \<and>
     outer_iterations (snd (sendMessage env req fb s))
       \<le> outer_iterations s + (if fb then 2 else 1) * max MAX_RETRIES (N + 1) \<and>
     outer_iterations (snd (sendMessageStream env req fb s))
       \<le> outer_iterations s + (if fb then 2 else 1) * max MAX_RETRIES (N + 1)"
proof -
  have 1: "outer_iterations (snd (outerLoop message_tryAccount env req fb maxAttempts attempt s))
       \<le> outer_iterations s + (maxAttempts - attempt)"
    using tallies_outerLoop [of message_tryAccount env req fb maxAttempts attempt s,
        OF quiet_message_tryAccount] by simp
  have 2: "outer_iterations (snd (outerLoop stream_tryAccount env req fb maxAttempts attempt s))
       \<le> outer_iterations s + (maxAttempts - attempt)"
    using tallies_outerLoop [of stream_tryAccount env req fb maxAttempts attempt s,
        OF quiet_stream_tryAccount] by simp
  have 3: "\<exists>r. fst (outerLoop message_tryAccount env req False maxAttempts attempt s) = Done r"
    by (rule outerLoop_False_Done)
  have 4: "\<exists>r. fst (outerLoop stream_tryAccount env req False maxAttempts attempt s) = Done r"
    by (rule outerLoop_False_Done)
  have 5: "\<not> attempt < maxAttempts \<longrightarrow>
        fst (outerLoop message_tryAccount env req False maxAttempts attempt s)
          = Done (Inl (new_Error ''Max retries exceeded'')) \<and>
        fst (outerLoop stream_tryAccount env req False maxAttempts attempt s)
          = Done (Inl (new_Error ''Max retries exceeded''))"
    by (simp add: outerLoop_exhausted afterLoop_def)
  have 6: "outer_iterations (snd (sendMessage env req False s))
       \<le> outer_iterations s + max MAX_RETRIES (am_getAccountCount (manager env) (world s) + 1)"
    using sendMessage_False_tallies [of env req s] by simp
  have 7: "outer_iterations (snd (sendMessageStream env req False s))
       \<le> outer_iterations s + max MAX_RETRIES (am_getAccountCount (manager env) (world s) + 1)"
    using sendMessageStream_False_tallies [of env req s] by simp
  have 8: "outer_iterations (snd (sendMessage env req fb s))
       \<le> outer_iterations s + (if fb then 2 else 1) * max MAX_RETRIES (N + 1)"
    using sendMessage_tallies [OF assms, of req fb s] by simp
  have 9: "outer_iterations (snd (sendMessageStream env req fb s))
       \<le> outer_iterations s + (if fb then 2 else 1) * max MAX_RETRIES (N + 1)"
    using sendMessageStream_tallies [OF assms, of req fb s] by simp
  show ?thesis
    using 1 2 3 4 5 6 7 8 9 by blast
qed

text \<open>
  With one account whose strategy never hands it out, and the fallback from \<open>big\<close> to
  \<open>small\<close>: three iterations on \<open>big\<close>, the tail call, three iterations on \<open>small\<close>,
  and \<open>Max retries exceeded\<close>; the bound of six iterations is reached.
\<close>

lemma idle_env_parts:
  "am_getAccountCount (manager idle_env) w = 1"
  "imported idle_env = scripted_modules"
  "getFallbackModel scripted_modules ''big'' = Some ''small''"
  "getFallbackModel scripted_modules ''small'' = None"
  by (simp_all add: idle_env_def scripted_env_def scripted_manager_def scripted_modules_def)

lemma idle_outerAttempt:
  "fst (outerAttempt tryAccount idle_env req fb s) = Continue \<and>
   outer_iterations (snd (outerAttempt tryAccount idle_env req fb s)) = outer_iterations s + 1"
  by (simp add: outerAttempt_def Let_def getAvailableAccounts_def selectAccount_call_def
      clearExpiredLimits_def idle_env_def scripted_env_def scripted_manager_def
      split: prod.splits)

lemma idle_outerLoop:
  "fst (outerLoop tryAccount idle_env req fb maxAttempts attempt s)
     = fst (afterLoop idle_env req fb s) \<and>
   outer_iterations (snd (outerLoop tryAccount idle_env req fb maxAttempts attempt s))
     = outer_iterations s + (maxAttempts - attempt)"
proof (induction "maxAttempts - attempt" arbitrary: attempt s)
  case 0
  then show ?case
    by (subst (1 2) outerLoop.simps) (simp add: afterLoop_def Let_def)
next
  case (Suc k)
  then have lt: "attempt < maxAttempts" and k: "k = maxAttempts - (attempt + 1)" by simp_all
  obtain r s1 where o: "outerAttempt tryAccount idle_env req fb s = (r, s1)"
    by (cases "outerAttempt tryAccount idle_env req fb s") auto
  have r: "r = Continue" and i1: "outer_iterations s1 = outer_iterations s + 1"
    using idle_outerAttempt [of tryAccount req fb s] o by simp_all
  have f: "fst (afterLoop idle_env req fb s1) = fst (afterLoop idle_env req fb s)"
    by (simp add: afterLoop_def Let_def)
  note ih = Suc.hyps(1) [OF k, of s1]
  have n: "outer_iterations (snd (outerLoop tryAccount idle_env req fb maxAttempts (attempt + 1) s1))
      = outer_iterations s + (maxAttempts - attempt)"
    using ih i1 lt by arith
  show ?case
    using ih n lt o r f
    by (subst (1 2) outerLoop.simps) simp
qed

theorem dispatch_bounded_iterations_witness:
  "(\<forall>w. am_getAccountCount (manager idle_env) w \<le> 1) \<and>
   outer_iterations (snd (sendMessage idle_env scripted_request True (scripted_state [])))
     \<le> outer_iterations (scripted_state []) + (if True then 2 else 1) * max MAX_RETRIES (1 + 1) \<and>
   fst (sendMessage idle_env scripted_request True (scripted_state []))
     = Inl (new_Error ''Max retries exceeded'') \<and>
   outer_iterations (snd (sendMessage idle_env scripted_request True (scripted_state []))) = 6 \<and>
   outer_iterations (scripted_state []) + (if True then 2 else 1) * max MAX_RETRIES (1 + 1) = 6 \<and>
   \<not> (3 :: nat) < 3 \<and>
   fst (outerLoop message_tryAccount idle_env scripted_request False 3 3 (scripted_state []))
     = Done (Inl (new_Error ''Max retries exceeded'')) \<and>
   fst (outerLoop stream_tryAccount idle_env scripted_request False 3 3 (scripted_state []))
     = Done (Inl (new_Error ''Max retries exceeded''))"
proof -
  have a: "\<forall>w. am_getAccountCount (manager idle_env) w \<le> 1"
    by (simp add: idle_env_parts)
  note T = dispatch_bounded_iterations [OF a, of scripted_request True 3 0 "scripted_state []"]
  let ?s0 = "log_event GetAccountCount (scripted_state [])"
  obtain r1 s1 where o1:
    "outerLoop message_tryAccount idle_env scripted_request True (Suc (Suc (Suc 0))) 0 ?s0 = (r1, s1)"
    by (cases "outerLoop message_tryAccount idle_env scripted_request True (Suc (Suc (Suc 0))) 0 ?s0") auto
  have r1: "r1 = TailCall (scripted_request\<lparr>model := ''small''\<rparr>)"
    and i1: "outer_iterations s1 = 3"
    using idle_outerLoop [of message_tryAccount scripted_request True "Suc (Suc (Suc 0))" 0 ?s0] o1
    by (simp_all add: afterLoop_def idle_env_parts scripted_request_def truthy_str_def
        scripted_state_def outer_iterations_def log_event_def)
  let ?q = "scripted_request\<lparr>model := ''small''\<rparr>"
  let ?s1 = "log_event GetAccountCount s1"
  obtain r2 s2 where o2: "outerLoop message_tryAccount idle_env ?q False (Suc (Suc (Suc 0))) 0 ?s1 = (r2, s2)"
    by (cases "outerLoop message_tryAccount idle_env ?q False (Suc (Suc (Suc 0))) 0 ?s1") auto
  have r2: "r2 = Done (Inl (new_Error ''Max retries exceeded''))"
    and i2: "outer_iterations s2 = 6"
    using idle_outerLoop [of message_tryAccount ?q False "Suc (Suc (Suc 0))" 0 ?s1] o2 i1
    by (simp_all add: afterLoop_def)
  have inner: "sendMessage idle_env ?q False s1
      = (Inl (new_Error ''Max retries exceeded''), s2)"
    using o2 r2
    by (subst sendMessage.simps)
       (simp add: getAccountCount_def idle_env_parts MAX_RETRIES_def)
  have run: "sendMessage idle_env scripted_request True (scripted_state [])
      = (Inl (new_Error ''Max retries exceeded''), s2)"
    using o1 r1 inner
    by (subst sendMessage.simps)
       (simp add: getAccountCount_def idle_env_parts MAX_RETRIES_def)
  have b: "outer_iterations (scripted_state []) + (if True then 2 else 1) * max MAX_RETRIES (1 + 1)
      = 6"
    by (simp add: scripted_state_def outer_iterations_def MAX_RETRIES_def)
  note E = dispatch_bounded_iterations [OF a, of scripted_request False 3 3 "scripted_state []"]
  have e: "fst (outerLoop message_tryAccount idle_env scripted_request False 3 3 (scripted_state []))
        = Done (Inl (new_Error ''Max retries exceeded'')) \<and>
      fst (outerLoop stream_tryAccount idle_env scripted_request False 3 3 (scripted_state []))
        = Done (Inl (new_Error ''Max retries exceeded''))"
    using E by simp
  show ?thesis
    using a T run i2 b e by simp
qed

section \<open>Cancellation\<close>

lemma sendMessage_signalled:
  "signalled_fetches (snd (sendMessage env req fb s)) = signalled_fetches s"
proof -
  let ?n = "max MAX_RETRIES (am_getAccountCount (manager env) (world s) + 1)"
  let ?s0 = "log_event GetAccountCount s"
  obtain r s' where o: "outerLoop message_tryAccount env req fb ?n 0 ?s0 = (r, s')"
    by (cases "outerLoop message_tryAccount env req fb ?n 0 ?s0") auto
  have t: "signalled_fetches s' = signalled_fetches s"
    using tallies_outerLoop [of message_tryAccount env req fb ?n 0 ?s0, OF quiet_message_tryAccount] o
    by simp
  show ?thesis
  proof (cases r)
    case (Done x)
    with o t show ?thesis
      by (subst sendMessage.simps) (simp add: getAccountCount_def)
  next
    case (TailCall q)
    have "sendMessage env req fb s = sendMessage env q False s'"
      using o TailCall by (subst sendMessage.simps) (simp add: getAccountCount_def)
    then show ?thesis
      using t sendMessage_False_tallies [of env q s'] by simp
  qed
qed

lemma sendMessageStream_signalled:
  "signalled_fetches (snd (sendMessageStream env req fb s)) = signalled_fetches s"
proof -
  let ?n = "max MAX_RETRIES (am_getAccountCount (manager env) (world s) + 1)"
  let ?s0 = "log_event GetAccountCount s"
  obtain r s' where o: "outerLoop stream_tryAccount env req fb ?n 0 ?s0 = (r, s')"
    by (cases "outerLoop stream_tryAccount env req fb ?n 0 ?s0") auto
  have t: "signalled_fetches s' = signalled_fetches s"
    using tallies_outerLoop [of stream_tryAccount env req fb ?n 0 ?s0, OF quiet_stream_tryAccount] o
    by simp
  show ?thesis
  proof (cases r)
    case (Done x)
    with o t show ?thesis
      by (subst sendMessageStream.simps) (simp add: getAccountCount_def)
  next
    case (TailCall q)
    have "sendMessageStream env req fb s = sendMessageStream env q False s'"
      using o TailCall by (subst sendMessageStream.simps) (simp add: getAccountCount_def)
    then show ?thesis
      using t sendMessageStream_False_tallies [of env q s'] by simp
  qed
qed

text \<open>
  Claim C9, as the code has it.  Neither dispatcher has a cancellation signal to
  thread: the init object of every \<open>fetch\<close> is \<open>{method, headers, body}\<close>, so that a
  whole dispatch adds no fetch with a \<open>signal\<close> to the trace, and \<open>sleep(ms)\<close> takes the
  duration only and always runs its timer to the end.
\<close>

theorem dispatch_without_cancellation_signal:
  "signal (message_init env req token payload) = None \<and>
   signal (stream_init env req token payload) = None \<and>
   signalled_fetches (snd (sendMessage env req fallbackEnabled s)) = signalled_fetches s \<and>
   signalled_fetches (snd (sendMessageStream env req fallbackEnabled s)) = signalled_fetches s \<and>
   world (sleep env ms s) = rt_setTimeout (runtime env) ms (world s) \<and>
   trace (sleep env ms s) = trace s @ [Sleep ms]"
  using sendMessage_signalled [of env req fallbackEnabled s]
    sendMessageStream_signalled [of env req fallbackEnabled s]
  by (simp add: sleep_def via_def log_event_def)

text \<open>
  A streaming dispatch whose upstream answers with empty streams: four fetches and
  three sleeps are issued, and none of them is given a signal.
\<close>

theorem stream_dispatch_unsignalled:
  "trace (snd (sendMessageStream empty_env scripted_request False (scripted_state [])))
     = first_account_events @
       [post_daily_stream, Sleep 500, post_daily_stream, Sleep 1000, post_daily_stream,
        Sleep 2000, post_daily_stream] \<and>
   post_daily_stream
     = Fetch ''https://daily.example/v1internal:streamGenerateContent?alt=sse'' stream_post \<and>
   signal stream_post = None \<and>
   \<not> carries_signal post_daily_stream \<and>
   signalled_fetches (snd (sendMessageStream empty_env scripted_request False (scripted_state [])))
     = 0"
proof -
  have t: "trace (snd (sendMessageStream empty_env scripted_request False (scripted_state [])))
     = first_account_events @
       [post_daily_stream, Sleep 500, post_daily_stream, Sleep 1000, post_daily_stream,
        Sleep 2000, post_daily_stream]"
    by (simp add: empty_env_run yield_all_def scripted_at_def)
  have p: "signal stream_post = None" "\<not> carries_signal post_daily_stream"
    by (simp_all add: stream_post_def post_daily_stream_def)
  have "signalled_fetches (snd (sendMessageStream empty_env scripted_request False (scripted_state [])))
     = 0"
    unfolding signalled_fetches_def t using p
    by (simp add: first_account_events_def)
  with t p show ?thesis
    by (simp add: post_daily_stream_def)
qed

section \<open>Token counting\<close>













end
